theory Spec2Isabelle
  imports Complex_Main "HOL-Library.Multiset"
begin

section \<open>Python and numpy primitives used by the notebooks\<close>

text \<open>
  The notebooks are glue code over numpy, astropy and specutils. Array values are modelled
  as exact real numbers, or as reals extended with the infinities and \<^verbatim>\<open>nan\<close> where a
  cell computes with those (rounding is outside the model); every exception a cell can raise
  is a value of \<open>error\<close>. Its last three values are not exceptions: they stand for
  results that numpy returns and that the model does not represent, the minimum-norm
  solution of a rank-deficient fit (\<open>RankDeficient\<close>), the coefficients of a fit whose
  exact leading coefficient is zero (\<open>FlatFit\<close>) and an array with \<^verbatim>\<open>inf\<close> or
  \<^verbatim>\<open>nan\<close> after a division by zero (\<open>NotFinite\<close>).
\<close>

datatype error =
  TypeError | ValueError | IndexError | KeyError | RankDeficient | FlatFit | NotFinite

text \<open>
  A slice bound of \<^verbatim>\<open>xs[start:stop]\<close> (step 1): a negative bound counts from the end of
  the sequence, and every bound is then clipped to \<open>0 .. len\<close>. A slice never raises.
\<close>

definition slice_bound :: "nat \<Rightarrow> int \<Rightarrow> nat" where
  "slice_bound len i = (if i < 0 then nat (max 0 (int len + i)) else min len (nat i))"

definition py_slice :: "'a list \<Rightarrow> int \<Rightarrow> int \<Rightarrow> 'a list" where
  "py_slice xs start stop =
     (let lo = slice_bound (length xs) start; hi = slice_bound (length xs) stop
      in take (hi - lo) (drop lo xs))"

text \<open>The positions \<^verbatim>\<open>xs[start:stop]\<close> selects, in order.\<close>

definition slice_indices :: "nat \<Rightarrow> int \<Rightarrow> int \<Rightarrow> nat list" where
  "slice_indices len start stop = [slice_bound len start ..< slice_bound len stop]"

text \<open>\<^verbatim>\<open>xs[i]\<close> for a non-negative index.\<close>

definition get :: "'a list \<Rightarrow> nat \<Rightarrow> error + 'a" where
  "get xs i = (if i < length xs then Inr (xs ! i) else Inl IndexError)"

text \<open>
  \<^verbatim>\<open>np.argmax\<close>: the first position of the largest value; \<^verbatim>\<open>ValueError\<close> on an empty
  array.
\<close>

fun argmax_aux :: "nat \<Rightarrow> real \<Rightarrow> nat \<Rightarrow> real list \<Rightarrow> nat" where
  "argmax_aux best bv i [] = best"
| "argmax_aux best bv i (x # xs) =
     (if bv < x then argmax_aux i x (Suc i) xs else argmax_aux best bv (Suc i) xs)"

definition argmax :: "real list \<Rightarrow> error + nat" where
  "argmax xs = (case xs of [] \<Rightarrow> Inl ValueError | x # rest \<Rightarrow> Inr (argmax_aux 0 x 1 rest))"

text \<open>
  \<^verbatim>\<open>np.polyfit(x, y, deg=2)\<close> in exact arithmetic: the coefficients, highest power first,
  of the least-squares parabola, from the normal equations by Cramer's rule. numpy raises
  \<^verbatim>\<open>TypeError\<close> on an empty \<open>x\<close> and on \<open>x\<close> and \<open>y\<close> of different lengths. Where
  the normal equations are singular numpy warns and returns a minimum-norm solution; that
  case is not modelled and is the value \<open>RankDeficient\<close>. Where the least-squares
  parabola is flat (its exact leading coefficient is zero) the leading coefficient numpy
  computes is rounding noise, in general not zero, and \<^verbatim>\<open>np.roots\<close> then sees a
  parabola; that case is not modelled either and is the value \<open>FlatFit\<close>.
\<close>

definition S :: "nat \<Rightarrow> (real \<times> real) list \<Rightarrow> real" where
  "S k pts = sum_list (map (\<lambda>(x, y). x ^ k) pts)"

definition T :: "nat \<Rightarrow> (real \<times> real) list \<Rightarrow> real" where
  "T k pts = sum_list (map (\<lambda>(x, y). x ^ k * y) pts)"

definition det3 :: "real \<Rightarrow> real \<Rightarrow> real \<Rightarrow> real \<Rightarrow> real \<Rightarrow> real \<Rightarrow> real \<Rightarrow> real \<Rightarrow> real \<Rightarrow> real" where
  "det3 a11 a12 a13 a21 a22 a23 a31 a32 a33 =
     a11 * (a22 * a33 - a23 * a32) - a12 * (a21 * a33 - a23 * a31)
       + a13 * (a21 * a32 - a22 * a31)"

definition polyfit :: "real list \<Rightarrow> real list \<Rightarrow> error + (real \<times> real \<times> real)" where
  "polyfit xs ys =
     (if xs = [] then Inl TypeError
      else if length xs \<noteq> length ys then Inl TypeError
      else
        let pts = zip xs ys;
            d = det3 (S 4 pts) (S 3 pts) (S 2 pts)
                     (S 3 pts) (S 2 pts) (S 1 pts)
                     (S 2 pts) (S 1 pts) (S 0 pts);
            a = det3 (T 2 pts) (S 3 pts) (S 2 pts)
                     (T 1 pts) (S 2 pts) (S 1 pts)
                     (T 0 pts) (S 1 pts) (S 0 pts) / d;
            b = det3 (S 4 pts) (T 2 pts) (S 2 pts)
                     (S 3 pts) (T 1 pts) (S 1 pts)
                     (S 2 pts) (T 0 pts) (S 0 pts) / d;
            c = det3 (S 4 pts) (S 3 pts) (T 2 pts)
                     (S 3 pts) (S 2 pts) (T 1 pts)
                     (S 2 pts) (S 1 pts) (T 0 pts) / d
        in if d = 0 then Inl RankDeficient
           else if a = 0 then Inl FlatFit
           else Inr (a, b, c))"

text \<open>
  \<^verbatim>\<open>np.roots(p)\<close> for three coefficients: leading zeros are stripped, so a parabola has two
  (possibly complex) roots, a line one root and a constant none.
\<close>

definition roots :: "real \<times> real \<times> real \<Rightarrow> complex list" where
  "roots p =
     (case p of (a, b, c) \<Rightarrow>
        if a \<noteq> 0 then
          [(- of_real b + csqrt (of_real (b * b - 4 * a * c))) / of_real (2 * a),
           (- of_real b - csqrt (of_real (b * b - 4 * a * c))) / of_real (2 * a)]
        else if b \<noteq> 0 then [of_real (- c / b)]
        else [])"

text \<open>\<^verbatim>\<open>np.mean\<close>: the mean of an empty array is \<^verbatim>\<open>nan\<close>, the value \<open>None\<close>.\<close>

definition mean :: "complex list \<Rightarrow> complex option" where
  "mean rs = (if rs = [] then None else Some (sum_list rs / of_nat (length rs)))"

section \<open>Peak Locator (02\_Cross\_correlation\_template)\<close>


text \<open>\<^verbatim>\<open>index_peak = np.argmax(corr)\<close>, \<^verbatim>\<open>v = lag[index_peak]\<close>, \<^verbatim>\<open>z = v / c\<close>\<close>

definition index_peak :: "real list \<Rightarrow> error + nat" where
  "index_peak corr = argmax corr"



text \<open>
  \<^verbatim>\<open>peak_lags = lag[index_peak-n:index_peak+n+1]\<close> and
  \<^verbatim>\<open>peak_vals = corr[index_peak-n:index_peak+n+1]\<close>
\<close>

definition peak_lags :: "real list \<Rightarrow> nat \<Rightarrow> nat \<Rightarrow> real list" where
  "peak_lags lag ip n = py_slice lag (int ip - int n) (int ip + int n + 1)"

definition peak_vals :: "real list \<Rightarrow> nat \<Rightarrow> nat \<Rightarrow> real list" where
  "peak_vals corr ip n = py_slice corr (int ip - int n) (int ip + int n + 1)"

text \<open>The grid positions the two slices read.\<close>

definition peak_window :: "nat \<Rightarrow> nat \<Rightarrow> nat \<Rightarrow> nat list" where
  "peak_window len ip n = slice_indices len (int ip - int n) (int ip + int n + 1)"

text \<open>
  \<^verbatim>\<open>p = np.polyfit(peak_lags, peak_vals, deg=2)\<close>, \<^verbatim>\<open>roots = np.roots(p)\<close>,
  \<^verbatim>\<open>v_fit = np.mean(roots)\<close>, \<^verbatim>\<open>z = v_fit / c\<close>. The half-window \<open>n\<close> is the cell's
  variable; the cell sets it to 8.
\<close>

definition v_fit :: "real list \<Rightarrow> real list \<Rightarrow> nat \<Rightarrow> error + complex option" where
  "v_fit lag corr n =
     (case index_peak corr of
        Inl e \<Rightarrow> Inl e
      | Inr ip \<Rightarrow>
          (case polyfit (peak_lags lag ip n) (peak_vals corr ip n) of
             Inl e \<Rightarrow> Inl e
           | Inr p \<Rightarrow> Inr (mean (roots p))))"






section \<open>Floating-point values\<close>

text \<open>
  Where a cell computes with \<^verbatim>\<open>inf\<close> or \<^verbatim>\<open>nan\<close> its numbers are floating-point
  values without the rounding: a real, an infinity or \<^verbatim>\<open>nan\<close>, with the IEEE
  comparisons and the arithmetic of numpy (a signed zero is not modelled).
\<close>

datatype fnum = Fin real | PInf | NInf | NaN

fun flt :: "fnum \<Rightarrow> fnum \<Rightarrow> bool" where
  "flt (Fin a) (Fin b) = (a < b)"
| "flt (Fin a) PInf = True"
| "flt NInf (Fin b) = True"
| "flt NInf PInf = True"
| "flt _ _ = False"

fun feq :: "fnum \<Rightarrow> fnum \<Rightarrow> bool" where
  "feq (Fin a) (Fin b) = (a = b)"
| "feq PInf PInf = True"
| "feq NInf NInf = True"
| "feq _ _ = False"

definition fle :: "fnum \<Rightarrow> fnum \<Rightarrow> bool" where
  "fle a b = (flt a b \<or> feq a b)"

fun fdiv :: "fnum \<Rightarrow> fnum \<Rightarrow> fnum" where
  "fdiv (Fin a) (Fin b) =
     (if b \<noteq> 0 then Fin (a / b) else if a = 0 then NaN else if 0 < a then PInf else NInf)"
| "fdiv (Fin a) PInf = Fin 0"
| "fdiv (Fin a) NInf = Fin 0"
| "fdiv PInf (Fin b) = (if 0 \<le> b then PInf else NInf)"
| "fdiv NInf (Fin b) = (if 0 \<le> b then NInf else PInf)"
| "fdiv _ _ = NaN"

fun fadd :: "fnum \<Rightarrow> fnum \<Rightarrow> fnum" where
  "fadd (Fin a) (Fin b) = Fin (a + b)"
| "fadd (Fin a) PInf = PInf"
| "fadd (Fin a) NInf = NInf"
| "fadd PInf (Fin b) = PInf"
| "fadd NInf (Fin b) = NInf"
| "fadd PInf PInf = PInf"
| "fadd NInf NInf = NInf"
| "fadd _ _ = NaN"

fun fscale :: "real \<Rightarrow> fnum \<Rightarrow> fnum" where
  "fscale c (Fin a) = Fin (c * a)"
| "fscale c PInf = (if c = 0 then NaN else if 0 < c then PInf else NInf)"
| "fscale c NInf = (if c = 0 then NaN else if 0 < c then NInf else PInf)"
| "fscale c NaN = NaN"

fun flog10 :: "fnum \<Rightarrow> fnum" where
  "flog10 (Fin a) = (if 0 < a then Fin (log 10 a) else if a = 0 then NInf else NaN)"
| "flog10 PInf = PInf"
| "flog10 _ = NaN"

section \<open>Continuum Estimator (02\_Cross\_correlation\_template, 03\_Spatially\_resolved\_emission\_line\_map)\<close>

text \<open>
  numpy boolean-mask indexing \<^verbatim>\<open>xs[m]\<close>: the elements at the positions where the mask is
  true; \<^verbatim>\<open>IndexError\<close> when the mask and the array differ in length.
\<close>

definition bool_index :: "'a list \<Rightarrow> bool list \<Rightarrow> error + 'a list" where
  "bool_index xs m =
     (if length m = length xs then Inr (map fst (filter snd (zip xs m))) else Inl IndexError)"

text \<open>
  \<^verbatim>\<open>mask = ((wave > lo1) & (wave < hi1)) | ((wave > lo2) & (wave < hi2))\<close>: a sample is
  selected when its wavelength lies strictly inside one of the bounds. The cells write two
  bounds out; the model takes the list of bounds.
\<close>

definition in_bounds :: "(real \<times> real) list \<Rightarrow> real \<Rightarrow> bool" where
  "in_bounds bounds w = list_ex (\<lambda>(lo, hi). lo < w \<and> w < hi) bounds"

definition mask_line :: "(real \<times> real) list \<Rightarrow> real list \<Rightarrow> bool list" where
  "mask_line bounds wave = map (in_bounds bounds) wave"

definition bounds_200 :: "(real \<times> real) list" where
  "bounds_200 = [(1.75, 1.97), (2.08, 2.23)]"

definition bounds_150 :: "(real \<times> real) list" where
  "bounds_150 = [(1.35, 1.48), (1.6, 1.65)]"

text \<open>
  \<^verbatim>\<open>continuum.fit_generic_continuum(Spectrum(spectral_axis=w, flux=f), model=Chebyshev1D(deg))\<close>
  is specutils' code, not this repository's: the model takes it as the parameter \<open>fit\<close>,
  from the degree and the two sample arrays to the fitted model (a function of
  wavelength) or the exception it raises. The estimator does nothing with the flux
  values and the fitted model but pass them on, so it is written for any type of either:
  \<^verbatim>\<open>obs = Spectrum(spectral_axis=wave[mask]*u.um, flux=flux[mask]*spec_unit)\<close>,
  \<^verbatim>\<open>cont = continuum.fit_generic_continuum(obs, model=Chebyshev1D(deg))\<close>
\<close>

definition continuum_estimator ::
    "(nat \<Rightarrow> real list \<Rightarrow> 'f list \<Rightarrow> error + 'm) \<Rightarrow> nat \<Rightarrow> (real \<times> real) list
      \<Rightarrow> real list \<Rightarrow> 'f list \<Rightarrow> error + 'm" where
  "continuum_estimator fit deg bounds wave flux =
     (case bool_index wave (mask_line bounds wave) of
        Inl e \<Rightarrow> Inl e
      | Inr wsel \<Rightarrow>
          (case bool_index flux (mask_line bounds wave) of
             Inl e \<Rightarrow> Inl e
           | Inr fsel \<Rightarrow> fit deg wsel fsel))"

text \<open>The F200W cell of notebook 02: \<^verbatim>\<open>continuum_200\<close>.\<close>

definition continuum_200 ::
    "(nat \<Rightarrow> real list \<Rightarrow> 'f list \<Rightarrow> error + 'm) \<Rightarrow> real list \<Rightarrow> 'f list \<Rightarrow> error + 'm" where
  "continuum_200 fit wave_200 flux_200 = continuum_estimator fit 7 bounds_200 wave_200 flux_200"

text \<open>
  The spec's words, "an ordinary least-squares polynomial fit of the given degree":
  \<open>polynomial cs\<close> is the polynomial with the coefficients \<open>cs\<close>, constant first,
  \<open>rss pts m\<close> is the sum of the squared residuals of a model \<open>m\<close> over the samples
  \<open>pts\<close>, and \<open>ols_fit deg pts m\<close> says that \<open>m\<close> is a polynomial of degree at most
  \<open>deg\<close> whose sum of squared residuals no such polynomial undercuts.
\<close>

definition polynomial :: "real list \<Rightarrow> real \<Rightarrow> real" where
  "polynomial cs x = foldr (\<lambda>c r. c + x * r) cs 0"

definition rss :: "(real \<times> real) list \<Rightarrow> (real \<Rightarrow> real) \<Rightarrow> real" where
  "rss pts m = sum_list (map (\<lambda>(x, y). (m x - y) ^ 2) pts)"

definition ols_fit :: "nat \<Rightarrow> (real \<times> real) list \<Rightarrow> (real \<Rightarrow> real) \<Rightarrow> bool" where
  "ols_fit deg pts m =
     ((\<exists>cs. length cs \<le> deg + 1 \<and> m = polynomial cs)
      \<and> (\<forall>cs. length cs \<le> deg + 1 \<longrightarrow> rss pts m \<le> rss pts (polynomial cs)))"

section \<open>Row-resolved loops (03\_Spatially\_resolved\_emission\_line\_map)\<close>

text \<open>
  A 2D array is the list of its rows. The wavelengths \<^verbatim>\<open>wave_2d\<close> are real numbers; the
  pixel values \<^verbatim>\<open>data_2d\<close>, \<^verbatim>\<open>line_2d\<close> and the arrays the loops fill are
  floating-point values, which may be \<^verbatim>\<open>nan\<close> or infinite. The library's fit takes
  the selected pixel values and returns a model from wavelength to such a value.
\<close>

type_synonym wave2 = "real list list"

type_synonym array2 = "fnum list list"

type_synonym fitter = "nat \<Rightarrow> real list \<Rightarrow> fnum list \<Rightarrow> error + (real \<Rightarrow> fnum)"

text \<open>
  \<^verbatim>\<open>out[yy, :] = vals\<close> raises \<^verbatim>\<open>IndexError\<close> when the row does not exist and
  \<^verbatim>\<open>ValueError\<close> when \<open>vals\<close> has neither the row's length nor length 1 (which numpy
  broadcasts).
\<close>

definition broadcast_row :: "nat \<Rightarrow> 'a list \<Rightarrow> 'a list" where
  "broadcast_row len vals = (if length vals = len then vals else replicate len (hd vals))"

definition assign_row :: "'a list list \<Rightarrow> nat \<Rightarrow> 'a list \<Rightarrow> error + 'a list list" where
  "assign_row out yy vals =
     (if length out \<le> yy then Inl IndexError
      else if length vals = length (out ! yy) \<or> length vals = 1
        then Inr (out[yy := broadcast_row (length (out ! yy)) vals])
      else Inl ValueError)"

text \<open>
  A \<^verbatim>\<open>for yy in ...\<close> loop whose body may raise: the loop stops at the first exception,
  with the arrays as they are at that moment. The result is the final state and the
  exception, if any.
\<close>

fun row_loop :: "(nat \<Rightarrow> 's \<Rightarrow> 's \<times> error option) \<Rightarrow> nat list \<Rightarrow> 's \<Rightarrow> 's \<times> error option" where
  "row_loop body [] s = (s, None)"
| "row_loop body (yy # rest) s =
     (case body yy s of
        (s', None) \<Rightarrow> row_loop body rest s'
      | (s', Some e) \<Rightarrow> (s', Some e))"

text \<open>
  One iteration of the continuum loop:
  \<^verbatim>\<open>mask_line = ((wave_2d[yy, :] > 1.75) & ...)\<close>,
  \<^verbatim>\<open>obs = Spectrum(spectral_axis=wave_2d[yy, :][mask_line]*u.um, flux=data_2d[yy, :][mask_line]*spec_unit)\<close>,
  \<^verbatim>\<open>cont = continuum.fit_generic_continuum(obs, model=Chebyshev1D(7))\<close>,
  \<^verbatim>\<open>flux_cont2d[yy, :] = cont(wave_2d[yy, :]*u.um).value\<close>
\<close>

definition cont_of_row :: "fitter \<Rightarrow> (real \<times> real) list \<Rightarrow> real list \<Rightarrow> fnum list \<Rightarrow> error + fnum list" where
  "cont_of_row fit bounds wrow drow =
     (case continuum_estimator fit 7 bounds wrow drow of
        Inl e \<Rightarrow> Inl e
      | Inr cont \<Rightarrow> Inr (map cont wrow))"

definition cont_row :: "fitter \<Rightarrow> (real \<times> real) list \<Rightarrow> wave2 \<Rightarrow> array2 \<Rightarrow> nat \<Rightarrow> error + fnum list" where
  "cont_row fit bounds wave_2d data_2d yy =
     (case get wave_2d yy of
        Inl e \<Rightarrow> Inl e
      | Inr wrow \<Rightarrow>
          (case get data_2d yy of
             Inl e \<Rightarrow> Inl e
           | Inr drow \<Rightarrow> cont_of_row fit bounds wrow drow))"

definition cont_body ::
    "fitter \<Rightarrow> (real \<times> real) list \<Rightarrow> wave2 \<Rightarrow> array2 \<Rightarrow> nat \<Rightarrow> array2 \<Rightarrow> array2 \<times> error option" where
  "cont_body fit bounds wave_2d data_2d yy out =
     (case cont_row fit bounds wave_2d data_2d yy of
        Inl e \<Rightarrow> (out, Some e)
      | Inr vals \<Rightarrow>
          (case assign_row out yy vals of
             Inl e \<Rightarrow> (out, Some e)
           | Inr out' \<Rightarrow> (out', None)))"

text \<open>
  \<^verbatim>\<open>flux_cont2d = data_2d[:, :] * 0\<close>: the product of a pixel with 0 is 0 where the
  pixel is finite and \<^verbatim>\<open>nan\<close> where it is \<^verbatim>\<open>nan\<close> or infinite. Then the loop over
  \<^verbatim>\<open>range(len(data_2d[:, 0]))\<close>, which is every row in increasing order (an array
  without columns, for which \<^verbatim>\<open>data_2d[:, 0]\<close> itself raises, is left out).
  \<open>flux_cont2d_in\<close> runs the same iterations in a given order.
\<close>

definition zeros_like :: "array2 \<Rightarrow> array2" where
  "zeros_like data_2d = map (map (fscale 0)) data_2d"

definition flux_cont2d_in ::
    "nat list \<Rightarrow> fitter \<Rightarrow> (real \<times> real) list \<Rightarrow> wave2 \<Rightarrow> array2 \<Rightarrow> array2 \<times> error option" where
  "flux_cont2d_in order fit bounds wave_2d data_2d =
     row_loop (cont_body fit bounds wave_2d data_2d) order (zeros_like data_2d)"

definition flux_cont2d ::
    "fitter \<Rightarrow> (real \<times> real) list \<Rightarrow> wave2 \<Rightarrow> array2 \<Rightarrow> array2 \<times> error option" where
  "flux_cont2d fit bounds wave_2d data_2d =
     flux_cont2d_in [0 ..< length data_2d] fit bounds wave_2d data_2d"

text \<open>
  The emission-line loop. \<^verbatim>\<open>fit_lines(spectrum_cut, g1_init+g2_init+g3_init)\<close> is
  specutils' code: the parameter \<open>fit_lines\<close> gives the three fitted components
  \<^verbatim>\<open>g123_fit[0]\<close>, \<^verbatim>\<open>g123_fit[1]\<close>, \<^verbatim>\<open>g123_fit[2]\<close> or the exception raised.
\<close>

type_synonym line_fitter =
  "real list \<Rightarrow> fnum list \<Rightarrow> error + ((real \<Rightarrow> fnum) \<times> (real \<Rightarrow> fnum) \<times> (real \<Rightarrow> fnum))"

text \<open>\<^verbatim>\<open>np.argmin\<close>: the first position of the smallest value.\<close>

fun argmin_aux :: "nat \<Rightarrow> real \<Rightarrow> nat \<Rightarrow> real list \<Rightarrow> nat" where
  "argmin_aux best bv i [] = best"
| "argmin_aux best bv i (x # xs) =
     (if x < bv then argmin_aux i x (Suc i) xs else argmin_aux best bv (Suc i) xs)"

definition argmin :: "real list \<Rightarrow> error + nat" where
  "argmin xs = (case xs of [] \<Rightarrow> Inl ValueError | x # rest \<Rightarrow> Inr (argmin_aux 0 x 1 rest))"

text \<open>\<^verbatim>\<open>int(x)\<close> of a float truncates towards zero.\<close>

definition int_of_float :: "real \<Rightarrow> int" where
  "int_of_float x = (if 0 \<le> x then \<lfloor>x\<rfloor> else \<lceil>x\<rceil>)"

definition zin :: real where
  "zin = 2.1"

definition lamcen_hb :: real where
  "lamcen_hb = 0.4862680 * (1 + zin)"

definition lamcen_o3b :: real where
  "lamcen_o3b = 0.4960295 * (1 + zin)"

definition lamcen_o3r :: real where
  "lamcen_o3r = 0.5008240 * (1 + zin)"

text \<open>
  \<^verbatim>\<open>index_lamcen = np.argmin(np.abs(lamcen - wave_2d[yy, :]))\<close> and the right-hand side
  \<^verbatim>\<open>g(wave_2d[yy, :]*u.um)[int(index_lamcen-rsq/2.):int(index_lamcen+rsq/2.)]\<close>
\<close>

definition cut_row :: "(real \<Rightarrow> fnum) \<Rightarrow> real \<Rightarrow> nat \<Rightarrow> real list \<Rightarrow> error + fnum list" where
  "cut_row g lamcen rsq wrow =
     (case argmin (map (\<lambda>w. \<bar>lamcen - w\<bar>) wrow) of
        Inl e \<Rightarrow> Inl e
      | Inr index_lamcen \<Rightarrow>
          Inr (py_slice (map g wrow)
                 (int_of_float (real index_lamcen - real rsq / 2))
                 (int_of_float (real index_lamcen + real rsq / 2))))"

record cuts =
  cut_hb :: array2
  cut_o3b :: array2
  cut_o3r :: array2

text \<open>
  One iteration: the cut \<^verbatim>\<open>con = (1.4 < wave_2d[yy, :]) & (wave_2d[yy, :] < 1.65)\<close>, the fit,
  and the three assignments in the cell's order. An exception in a later assignment
  leaves the earlier ones done. \<open>line_of_row\<close> is the part that reads the row and fits.
\<close>

definition line_of_row :: "line_fitter \<Rightarrow> real list \<Rightarrow> fnum list
    \<Rightarrow> error + ((real \<Rightarrow> fnum) \<times> (real \<Rightarrow> fnum) \<times> (real \<Rightarrow> fnum))" where
  "line_of_row fit_lines wrow lrow =
     (case bool_index lrow (map (\<lambda>w. 1.4 < w \<and> w < 1.65) wrow) of
        Inl e \<Rightarrow> Inl e
      | Inr fsel \<Rightarrow>
          (case bool_index wrow (map (\<lambda>w. 1.4 < w \<and> w < 1.65) wrow) of
             Inl e \<Rightarrow> Inl e
           | Inr wsel \<Rightarrow> fit_lines wsel fsel))"

definition line_row :: "line_fitter \<Rightarrow> wave2 \<Rightarrow> array2 \<Rightarrow> nat
    \<Rightarrow> error + (real list \<times> (real \<Rightarrow> fnum) \<times> (real \<Rightarrow> fnum) \<times> (real \<Rightarrow> fnum))" where
  "line_row fit_lines wave_2d line_2d yy =
     (case get wave_2d yy of
        Inl e \<Rightarrow> Inl e
      | Inr wrow \<Rightarrow>
          (case get line_2d yy of
             Inl e \<Rightarrow> Inl e
           | Inr lrow \<Rightarrow>
               (case line_of_row fit_lines wrow lrow of
                  Inl e \<Rightarrow> Inl e
                | Inr g \<Rightarrow> Inr (wrow, g))))"

definition line_body ::
    "line_fitter \<Rightarrow> wave2 \<Rightarrow> array2 \<Rightarrow> nat \<Rightarrow> nat \<Rightarrow> cuts \<Rightarrow> cuts \<times> error option" where
  "line_body fit_lines wave_2d line_2d rsq yy s =
     (case line_row fit_lines wave_2d line_2d yy of
        Inl e \<Rightarrow> (s, Some e)
      | Inr (wrow, g1, g2, g3) \<Rightarrow>
     (case cut_row g1 lamcen_hb rsq wrow of
        Inl e \<Rightarrow> (s, Some e)
      | Inr v1 \<Rightarrow>
     (case assign_row (cut_hb s) yy v1 of
        Inl e \<Rightarrow> (s, Some e)
      | Inr a1 \<Rightarrow>
     (case cut_row g2 lamcen_o3b rsq wrow of
        Inl e \<Rightarrow> (s\<lparr>cut_hb := a1\<rparr>, Some e)
      | Inr v2 \<Rightarrow>
     (case assign_row (cut_o3b s) yy v2 of
        Inl e \<Rightarrow> (s\<lparr>cut_hb := a1\<rparr>, Some e)
      | Inr a2 \<Rightarrow>
     (case cut_row g3 lamcen_o3r rsq wrow of
        Inl e \<Rightarrow> (s\<lparr>cut_hb := a1, cut_o3b := a2\<rparr>, Some e)
      | Inr v3 \<Rightarrow>
     (case assign_row (cut_o3r s) yy v3 of
        Inl e \<Rightarrow> (s\<lparr>cut_hb := a1, cut_o3b := a2\<rparr>, Some e)
      | Inr a3 \<Rightarrow> (s\<lparr>cut_hb := a1, cut_o3b := a2, cut_o3r := a3\<rparr>, None))))))))"

text \<open>
  \<^verbatim>\<open>rsq = data_2d.shape[0]\<close>, the three maps start as \<^verbatim>\<open>np.zeros((rsq, rsq))\<close>, and the
  loop runs over every row of \<^verbatim>\<open>data_2d\<close>. \<open>cut_maps_in\<close> runs the iterations in a
  given order.
\<close>

definition zeros_sq :: "nat \<Rightarrow> cuts" where
  "zeros_sq rsq =
     \<lparr>cut_hb = replicate rsq (replicate rsq (Fin 0)),
      cut_o3b = replicate rsq (replicate rsq (Fin 0)),
      cut_o3r = replicate rsq (replicate rsq (Fin 0))\<rparr>"

definition cut_maps_in ::
    "nat list \<Rightarrow> line_fitter \<Rightarrow> wave2 \<Rightarrow> array2 \<Rightarrow> array2 \<Rightarrow> cuts \<times> error option" where
  "cut_maps_in order fit_lines wave_2d line_2d data_2d =
     row_loop (line_body fit_lines wave_2d line_2d (length data_2d)) order
       (zeros_sq (length data_2d))"

definition cut_maps :: "line_fitter \<Rightarrow> wave2 \<Rightarrow> array2 \<Rightarrow> array2 \<Rightarrow> cuts \<times> error option" where
  "cut_maps fit_lines wave_2d line_2d data_2d =
     cut_maps_in [0 ..< length data_2d] fit_lines wave_2d line_2d data_2d"

text \<open>
  The rows one iteration writes, as a function of row \<open>yy\<close> of the inputs alone (the
  independent per-row map of the spec): for the continuum loop it is \<open>cont_of_row\<close>;
  for the emission-line loop it is \<open>cuts_of_row\<close>, where an assignment into a row of
  length \<open>rsq\<close> takes a right-hand side of that length or of length 1.
\<close>

definition fits_row :: "nat \<Rightarrow> 'a list \<Rightarrow> bool" where
  "fits_row rsq v = (length v = rsq \<or> length v = 1)"

definition cuts_of_row :: "line_fitter \<Rightarrow> nat \<Rightarrow> real list \<Rightarrow> fnum list
    \<Rightarrow> error + (fnum list \<times> fnum list \<times> fnum list)" where
  "cuts_of_row fit_lines rsq wrow lrow =
     (case line_of_row fit_lines wrow lrow of
        Inl e \<Rightarrow> Inl e
      | Inr (g1, g2, g3) \<Rightarrow>
     (case cut_row g1 lamcen_hb rsq wrow of
        Inl e \<Rightarrow> Inl e
      | Inr v1 \<Rightarrow>
     if \<not> fits_row rsq v1 then Inl ValueError else
     (case cut_row g2 lamcen_o3b rsq wrow of
        Inl e \<Rightarrow> Inl e
      | Inr v2 \<Rightarrow>
     if \<not> fits_row rsq v2 then Inl ValueError else
     (case cut_row g3 lamcen_o3r rsq wrow of
        Inl e \<Rightarrow> Inl e
      | Inr v3 \<Rightarrow>
     if \<not> fits_row rsq v3 then Inl ValueError
     else Inr (broadcast_row rsq v1, broadcast_row rsq v2, broadcast_row rsq v3)))))"

text \<open>
  For the proofs: \<open>cuts_shape rsq s\<close> says that the three maps are \<open>rsq\<close> rows of
  length \<open>rsq\<close>, \<open>write_cuts yy v s\<close> stores three rows at position \<open>yy\<close>, and
  \<open>cuts_at\<close> is \<open>cuts_of_row\<close> at row \<open>yy\<close> of the arrays.
\<close>

definition cuts_shape :: "nat \<Rightarrow> cuts \<Rightarrow> bool" where
  "cuts_shape rsq s =
     (length (cut_hb s) = rsq \<and> list_all (\<lambda>r. length r = rsq) (cut_hb s)
      \<and> length (cut_o3b s) = rsq \<and> list_all (\<lambda>r. length r = rsq) (cut_o3b s)
      \<and> length (cut_o3r s) = rsq \<and> list_all (\<lambda>r. length r = rsq) (cut_o3r s))"

definition write_cuts :: "nat \<Rightarrow> fnum list \<times> fnum list \<times> fnum list \<Rightarrow> cuts \<Rightarrow> cuts" where
  "write_cuts yy v s =
     (case v of (v1, v2, v3) \<Rightarrow>
        s\<lparr>cut_hb := (cut_hb s)[yy := v1], cut_o3b := (cut_o3b s)[yy := v2],
          cut_o3r := (cut_o3r s)[yy := v3]\<rparr>)"

definition cuts_at :: "line_fitter \<Rightarrow> wave2 \<Rightarrow> array2 \<Rightarrow> nat \<Rightarrow> nat
    \<Rightarrow> error + (fnum list \<times> fnum list \<times> fnum list)" where
  "cuts_at fit_lines wave_2d line_2d rsq yy =
     (if yy < length wave_2d \<and> yy < length line_2d \<and> yy < rsq
      then cuts_of_row fit_lines rsq (wave_2d ! yy) (line_2d ! yy)
      else Inl IndexError)"

section \<open>read\_hdf5 (02\_Cross\_correlation\_template)\<close>


record entry =
  wavelengths :: "real list"
  fluxes :: "real list"



text \<open>
  \<^verbatim>\<open>int(key)\<close> of a string, base 10: white space around it is dropped, a sign may come
  first, and single underscores may separate the digits; anything else is a
  \<^verbatim>\<open>ValueError\<close>. The white space \<^verbatim>\<open>int\<close> drops is tab, line feed, vertical tab, form
  feed, carriage return, space, next line (133) and no-break space (160); the separators
  28 to 31, which \<^verbatim>\<open>str.strip\<close> would drop, are not among them.
\<close>

definition is_space :: "char \<Rightarrow> bool" where
  "is_space c = ((of_char c :: nat) \<in> {9, 10, 11, 12, 13, 32, 133, 160})"

definition strip :: "string \<Rightarrow> string" where
  "strip s = rev (dropWhile is_space (rev (dropWhile is_space s)))"

definition is_digit :: "char \<Rightarrow> bool" where
  "is_digit c = (48 \<le> (of_char c :: nat) \<and> (of_char c :: nat) \<le> 57)"

fun digits_ok :: "string \<Rightarrow> bool" where
  "digits_ok [] = False"
| "digits_ok [c] = is_digit c"
| "digits_ok (c # d # rest) =
     (is_digit c \<and> (if d = CHR ''_'' then digits_ok rest else digits_ok (d # rest)))"

definition digits_value :: "string \<Rightarrow> int" where
  "digits_value s =
     foldl (\<lambda>acc c. 10 * acc + (int (of_char c) - 48)) 0 (filter (\<lambda>c. c \<noteq> CHR ''_'') s)"

definition py_int :: "string \<Rightarrow> error + int" where
  "py_int s =
     (case strip s of
        [] \<Rightarrow> Inl ValueError
      | c # r \<Rightarrow>
          if c = CHR ''-'' then (if digits_ok r then Inr (- digits_value r) else Inl ValueError)
          else if c = CHR ''+'' then (if digits_ok r then Inr (digits_value r) else Inl ValueError)
          else if digits_ok (c # r) then Inr (digits_value (c # r)) else Inl ValueError)"







section \<open>Template Normalizer (02\_Cross\_correlation\_template)\<close>

text \<open>
  \<^verbatim>\<open>continuum.fit_generic_continuum(template, model=Chebyshev1D(3), exclude_regions=regions)\<close>
  on \<^verbatim>\<open>template = Spectrum(spectral_axis=wave*u.um, flux=flux*factor)\<close> is the library's:
  the parameter \<open>fit_excl\<close>, from the degree, the excluded regions and the two arrays.
\<close>

type_synonym region_fitter =
  "nat \<Rightarrow> (real \<times> real) list \<Rightarrow> real list \<Rightarrow> real list \<Rightarrow> error + (real \<Rightarrow> real)"

definition regions :: "(real \<times> real) list" where
  "regions = [(0.37, 0.452), (0.476, 0.53), (0.645, 0.67)]"

text \<open>
  \<^verbatim>\<open>x / x.max()\<close>: \<^verbatim>\<open>max\<close> of an empty array raises \<^verbatim>\<open>ValueError\<close>. Dividing by a
  maximum of zero gives \<^verbatim>\<open>inf\<close> and \<^verbatim>\<open>nan\<close> with a warning; real numbers have neither,
  and the model stops there with \<open>NotFinite\<close>.
\<close>

definition divide_by_max :: "real list \<Rightarrow> error + real list" where
  "divide_by_max xs =
     (if xs = [] then Inl ValueError
      else if Max (set xs) = 0 then Inl NotFinite
      else Inr (map (\<lambda>x. x / Max (set xs)) xs))"

text \<open>
  The cells from \<^verbatim>\<open>flux_all = content[iix]['fluxes']\<close> to \<^verbatim>\<open>p_smooth_template\<close>:
  \<^verbatim>\<open>wave_all = content[iix]['wavelengths'] / (1. + z_input) * 1e4\<close>,
  \<^verbatim>\<open>con_tmp = (wave_all > 3600) & (wave_all < 13000)\<close>, \<^verbatim>\<open>flux /= flux.max()\<close>,
  \<^verbatim>\<open>wave *= 1.e-4\<close>, the continuum fit and its subtraction, and
  \<^verbatim>\<open>sflux/sflux.max()\<close>. The result is the spectral axis and the flux of
  \<^verbatim>\<open>p_smooth_template\<close>.
\<close>

definition template_normalizer ::
    "region_fitter \<Rightarrow> real \<Rightarrow> entry \<Rightarrow> error + (real list \<times> real list)" where
  "template_normalizer fit_excl z_input content_iix =
     (if 1 + z_input = 0 then Inl NotFinite
      else
        let flux_all = fluxes content_iix;
            wave_all = map (\<lambda>w. w / (1 + z_input) * 10000) (wavelengths content_iix);
            con_tmp = map (\<lambda>w. 3600 < w \<and> w < 13000) wave_all
        in case bool_index flux_all con_tmp of
             Inl e \<Rightarrow> Inl e
           | Inr flux0 \<Rightarrow>
         (case bool_index wave_all con_tmp of
             Inl e \<Rightarrow> Inl e
           | Inr wave0 \<Rightarrow>
         (case divide_by_max flux0 of
             Inl e \<Rightarrow> Inl e
           | Inr flux \<Rightarrow>
         (let wave = map (\<lambda>w. w * 0.0001) wave0 in
          case fit_excl 3 regions wave flux of
             Inl e \<Rightarrow> Inl e
           | Inr continuum_model \<Rightarrow>
         (case divide_by_max (map2 (\<lambda>f w. f - continuum_model w) flux wave) of
             Inl e \<Rightarrow> Inl e
           | Inr pflux \<Rightarrow> Inr (wave, pflux))))))"

section \<open>fluxes2mags (NIRCam\_multiband\_photometry)\<close>

text \<open>
  The function compares with \<^verbatim>\<open>np.inf\<close> and takes logarithms of values that may be zero
  or negative, so its numbers are the floating-point values \<open>fnum\<close>.
\<close>

text \<open>
  One element of the arrays. \<^verbatim>\<open>nondet = flux < 0\<close> and
  \<^verbatim>\<open>unobs = (fluxerr <= 0) + (fluxerr == np.inf)\<close>. \<^verbatim>\<open>flux.to(u.ABmag)\<close> is astropy's
  conversion, the parameter \<open>to_ABmag\<close>. The two \<^verbatim>\<open>np.where\<close> calls on each output are
  applied in the source's order, so the later one (unobserved) wins.
\<close>

definition nondet :: "fnum \<Rightarrow> bool" where
  "nondet flux = flt flux (Fin 0)"

definition unobs :: "fnum \<Rightarrow> bool" where
  "unobs fluxerr = (fle fluxerr (Fin 0) \<or> feq fluxerr PInf)"

definition fluxes2mags1 :: "(fnum \<Rightarrow> fnum) \<Rightarrow> fnum \<Rightarrow> fnum \<Rightarrow> fnum \<times> fnum" where
  "fluxes2mags1 to_ABmag flux fluxerr =
     (let mag = to_ABmag flux;
          magupperlimit = to_ABmag fluxerr;
          mag = (if nondet flux then Fin 99 else mag);
          mag = (if unobs fluxerr then Fin (- 99) else mag);
          magerr = fscale 2.5 (flog10 (fadd (Fin 1) (fdiv fluxerr flux)));
          magerr = (if nondet flux then magupperlimit else magerr);
          magerr = (if unobs fluxerr then Fin 0 else magerr)
      in (mag, magerr))"


text \<open>
  The arrays: element by element; arrays of different lengths do not broadcast
  (\<^verbatim>\<open>ValueError\<close>; the broadcast of a single element is not modelled).
\<close>

definition fluxes2mags ::
    "(fnum \<Rightarrow> fnum) \<Rightarrow> fnum list \<Rightarrow> fnum list \<Rightarrow> error + (fnum list \<times> fnum list)" where
  "fluxes2mags to_ABmag flux fluxerr =
     (if length flux \<noteq> length fluxerr then Inl ValueError
      else Inr (map2 (\<lambda>f e. fst (fluxes2mags1 to_ABmag f e)) flux fluxerr,
                map2 (\<lambda>f e. snd (fluxes2mags1 to_ABmag f e)) flux fluxerr))"

section \<open>Slices\<close>




lemma peak_window_in_bounds: "i \<in> set (peak_window len ip n) \<Longrightarrow> i < len"
  by (auto simp: peak_window_def slice_indices_def slice_bound_def split: if_splits)

lemma peak_window_low_edge:
  assumes "ip < n"
  shows "peak_window len ip n = [len + ip - n ..< min len (ip + n + 1)]"
proof -
  have "nat (max 0 (int len + (int ip - int n))) = len + ip - n"
    by (cases "n \<le> len + ip") (auto simp: max_def)
  then show ?thesis
    using assms
    by (auto simp: peak_window_def slice_indices_def slice_bound_def nat_add_distrib
        split: if_splits)
qed

section \<open>argmax\<close>



section \<open>Least-squares parabola and its roots\<close>














lemma quadratic_factor:
  fixes A B C s x :: complex
  assumes "A \<noteq> 0" and "s * s = B * B - 4 * A * C"
  shows "A * (x - (- B + s) / (2 * A)) * (x - (- B - s) / (2 * A)) = A * x ^ 2 + B * x + C"
proof -
  have "A * (x - (- B + s) / (2 * A)) * (x - (- B - s) / (2 * A))
      = A * x ^ 2 + B * x + (B * B - s * s) / (4 * A)"
    using assms(1) by (simp add: field_simps power2_eq_square)
  also have "(B * B - s * s) / (4 * A) = C"
    using assms by simp
  finally show ?thesis .
qed

lemma roots_parabola:
  assumes "a \<noteq> 0"
  shows "\<exists>r1 r2. roots (a, b, c) = [r1, r2]
     \<and> (\<forall>x. of_real a * x ^ 2 + of_real b * x + of_real c = of_real a * (x - r1) * (x - r2))
     \<and> mean (roots (a, b, c)) = Some ((r1 + r2) / 2)
     \<and> (r1 + r2) / 2 = of_real (- b / (2 * a))"
proof -
  define s where "s = csqrt (of_real (b * b - 4 * a * c))"
  have s2: "s * s = of_real b * of_real b - 4 * of_real a * of_real c"
    unfolding s_def power2_eq_square [symmetric] by simp
  define r1 where "r1 = (- of_real b + s) / (2 * of_real a)"
  define r2 where "r2 = (- of_real b - s) / (2 * of_real a)"
  have ac: "(of_real a :: complex) \<noteq> 0" using assms by simp
  have f: "of_real a * x ^ 2 + of_real b * x + of_real c = of_real a * (x - r1) * (x - r2)" for x
    unfolding r1_def r2_def by (rule quadratic_factor [OF ac s2, symmetric])
  have r: "roots (a, b, c) = [r1, r2]"
    using assms by (simp add: roots_def r1_def r2_def s_def)
  have m: "(r1 + r2) / 2 = of_real (- b / (2 * a))"
    using ac unfolding r1_def r2_def by (simp add: field_simps)
  show ?thesis
    using r f m by (simp add: mean_def)
qed

lemma mean_roots: "a \<noteq> 0 \<Longrightarrow> mean (roots (a, b, c)) = Some (of_real (- b / (2 * a)))"
  using roots_parabola [of a b c] by auto

section \<open>Peak Locator: the claims\<close>





text \<open>
  Claim C2. The half-window is not clipped at the low end of the lag grid. With the argmax
  at position 3 and \<open>n = 8\<close> the slice starts at \<open>-5\<close>, which Python counts from the
  end of the grid: on a grid of 20 points the window is empty (and \<open>polyfit\<close> raises), on
  a grid of 12 points it is the five points at the opposite end, without the argmax itself.
  The window clipped to the available range would be the positions \<open>0 .. 11\<close>.
\<close>

theorem peak_window_not_clipped_at_low_edge:
  "peak_window 20 3 8 = [] \<and> peak_window 12 3 8 = [7, 8, 9, 10, 11]
   \<and> v_fit [0, 1, 2, 3, 4, 5, 6, 7, 8, 9, 10, 11, 12, 13, 14, 15, 16, 17, 18, 19]
        [0, 1, 2, 5, 2, 1, 0, 0, 0, 0, 0, 0, 0, 0, 0, 0, 0, 0, 0, 0] 8 = Inl TypeError"
  by (simp add: peak_window_def slice_indices_def slice_bound_def upt_rec
      v_fit_def index_peak_def argmax_def peak_lags_def peak_vals_def py_slice_def polyfit_def)

section \<open>Continuum Estimator: the claims\<close>

lemma bool_index_self:
  "bool_index wave (map P wave) = Inr (filter P wave)"
proof -
  have "map fst (filter snd (zip wave (map P wave))) = filter P wave"
    by (induction wave) auto
  then show ?thesis by (simp add: bool_index_def)
qed

lemma bool_index_other:
  assumes "length flux = length wave"
  shows "bool_index flux (map P wave) = Inr (map snd (filter (\<lambda>(w, f). P w) (zip wave flux)))"
proof -
  have "map fst (filter snd (zip flux (map P wave))) = map snd (filter (\<lambda>(w, f). P w) (zip wave flux))"
    using assms by (induction flux wave rule: list_induct2) auto
  then show ?thesis using assms by (simp add: bool_index_def)
qed

lemma filter_zip_fst:
  "length flux = length wave \<Longrightarrow>
   map fst (filter (\<lambda>(w, f). P w) (zip wave flux)) = filter P wave"
  by (induction flux wave rule: list_induct2) auto

lemma continuum_estimator_eq:
  "continuum_estimator fit deg bounds wave flux =
     (if length flux = length wave
      then fit deg (map fst (filter (\<lambda>(w, f). in_bounds bounds w) (zip wave flux)))
                   (map snd (filter (\<lambda>(w, f). in_bounds bounds w) (zip wave flux)))
      else Inl IndexError)"
proof (cases "length flux = length wave")
  case True
  then show ?thesis
    by (simp add: continuum_estimator_def mask_line_def bool_index_self bool_index_other
        filter_zip_fst)
next
  case False
  then show ?thesis
    by (auto simp: continuum_estimator_def mask_line_def bool_index_self bool_index_def)
qed

lemma in_bounds_iff: "in_bounds bounds w = (\<exists>(lo, hi) \<in> set bounds. lo < w \<and> w < hi)"
  by (auto simp: in_bounds_def list_ex_iff)

lemma in_bounds_drop:
  assumes "\<not> (lo < w \<and> w < hi)"
  shows "in_bounds (bs1 @ (lo, hi) # bs2) w = in_bounds (bs1 @ bs2) w"
  using assms by (auto simp: in_bounds_iff)

text \<open>
  Claim C7, amended. The Continuum Estimator hands to the library's fit, with the given
  degree, exactly the samples whose wavelength lies strictly inside one of the bounds (and
  raises \<^verbatim>\<open>IndexError\<close> when flux and wavelength differ in length); its result is what
  that fit returns for them. The F200W cell does so with degree 7 and the bounds 1.75 to
  1.97 and 2.08 to 2.23, an iteration of the continuum loop with degree 7 and the bounds
  of that loop. A bound that lies entirely below or entirely above every wavelength of
  the spectrum selects no sample, leaves the mask as it is without that bound, and so
  leaves the result of the estimator, value or exception, unchanged.
\<close>

theorem continuum_estimator_selects:
  "continuum_estimator fit deg bounds wave flux =
     (if length flux = length wave
      then fit deg (map fst (filter (\<lambda>(w, f). in_bounds bounds w) (zip wave flux)))
                   (map snd (filter (\<lambda>(w, f). in_bounds bounds w) (zip wave flux)))
      else Inl IndexError)
   \<and> in_bounds bounds w = (\<exists>(lo, hi) \<in> set bounds. lo < w \<and> w < hi)
   \<and> continuum_200 fit wave flux =
     (if length flux = length wave
      then fit 7
        (map fst (filter (\<lambda>(w, f). 1.75 < w \<and> w < 1.97 \<or> 2.08 < w \<and> w < 2.23) (zip wave flux)))
        (map snd (filter (\<lambda>(w, f). 1.75 < w \<and> w < 1.97 \<or> 2.08 < w \<and> w < 2.23) (zip wave flux)))
      else Inl IndexError)
   \<and> cont_of_row fit_2d bounds wrow drow =
     (if length drow = length wrow
      then (case fit_2d 7 (map fst (filter (\<lambda>(w, f). in_bounds bounds w) (zip wrow drow)))
                       (map snd (filter (\<lambda>(w, f). in_bounds bounds w) (zip wrow drow))) of
              Inl e \<Rightarrow> Inl e
            | Inr cont \<Rightarrow> Inr (map cont wrow))
      else Inl IndexError)
   \<and> (list_all (\<lambda>w. hi \<le> w) wave \<or> list_all (\<lambda>w. w \<le> lo) wave \<longrightarrow>
        filter (\<lambda>w. lo < w \<and> w < hi) wave = []
        \<and> mask_line (bs1 @ (lo, hi) # bs2) wave = mask_line (bs1 @ bs2) wave
        \<and> continuum_estimator fit deg (bs1 @ (lo, hi) # bs2) wave flux
            = continuum_estimator fit deg (bs1 @ bs2) wave flux)"
proof -
  have out: "filter (\<lambda>w. lo < w \<and> w < hi) wave = []
        \<and> mask_line (bs1 @ (lo, hi) # bs2) wave = mask_line (bs1 @ bs2) wave
        \<and> continuum_estimator fit deg (bs1 @ (lo, hi) # bs2) wave flux
            = continuum_estimator fit deg (bs1 @ bs2) wave flux"
    if "list_all (\<lambda>w. hi \<le> w) wave \<or> list_all (\<lambda>w. w \<le> lo) wave"
  proof -
    from that have no: "\<not> (lo < w \<and> w < hi)" if "w \<in> set wave" for w
      using that by (auto simp: list_all_iff)
    then have e: "filter (\<lambda>w. lo < w \<and> w < hi) wave = []"
      by (auto simp: filter_empty_conv)
    have m: "mask_line (bs1 @ (lo, hi) # bs2) wave = mask_line (bs1 @ bs2) wave"
      unfolding mask_line_def by (rule map_cong) (simp_all add: in_bounds_drop no)
    show ?thesis
      using e m by (simp only: continuum_estimator_def)
  qed
  have b: "in_bounds bounds_200 w = (1.75 < w \<and> w < 1.97 \<or> 2.08 < w \<and> w < 2.23)" for w
    by (simp add: in_bounds_def bounds_200_def)
  have c: "continuum_200 fit wave flux =
     (if length flux = length wave
      then fit 7
        (map fst (filter (\<lambda>(w, f). 1.75 < w \<and> w < 1.97 \<or> 2.08 < w \<and> w < 2.23) (zip wave flux)))
        (map snd (filter (\<lambda>(w, f). 1.75 < w \<and> w < 1.97 \<or> 2.08 < w \<and> w < 2.23) (zip wave flux)))
      else Inl IndexError)"
    unfolding continuum_200_def continuum_estimator_eq b ..
  have r: "cont_of_row fit_2d bounds wrow drow =
     (if length drow = length wrow
      then (case fit_2d 7 (map fst (filter (\<lambda>(w, f). in_bounds bounds w) (zip wrow drow)))
                       (map snd (filter (\<lambda>(w, f). in_bounds bounds w) (zip wrow drow))) of
              Inl e \<Rightarrow> Inl e
            | Inr cont \<Rightarrow> Inr (map cont wrow))
      else Inl IndexError)"
    unfolding cont_of_row_def continuum_estimator_eq by simp
  show ?thesis
    using continuum_estimator_eq in_bounds_iff c r out by blast
qed

theorem continuum_estimator_selects_witness:
  "(list_all (\<lambda>w. (1.5::real) \<le> w) [1.7, 1.8, 1.9, 2.0, 2.1] \<or> list_all (\<lambda>w. w \<le> (1.0::real)) [1.7, 1.8, 1.9, 2.0, 2.1])
   \<and> mask_line ((1.0, 1.5) # bounds_200) [1.7, 1.8, 1.9, 2.0, 2.1] = [False, True, True, False, True]
   \<and> continuum_estimator (\<lambda>deg w f. Inr (\<lambda>x :: real. real deg * sum_list f)) 7
        ((1.0, 1.5) # bounds_200) [1.7, 1.8, 1.9, 2.0, 2.1] [10, 20, 30, 40, 50 :: real]
      = continuum_estimator (\<lambda>deg w f. Inr (\<lambda>x :: real. real deg * sum_list f)) 7 bounds_200
        [1.7, 1.8, 1.9, 2.0, 2.1] [10, 20, 30, 40, 50 :: real]
   \<and> continuum_200 (\<lambda>deg w f. Inr (\<lambda>x :: real. real deg * sum_list f))
        [1.7, 1.8, 1.9, 2.0, 2.1] [10, 20, 30, 40, 50 :: real]
      = Inr (\<lambda>x. 700)"
proof -
  let ?fit = "\<lambda>(deg :: nat) (w :: real list) (f :: real list).
      Inr (\<lambda>x :: real. real deg * sum_list f) :: error + (real \<Rightarrow> real)"
  let ?F = "[10, 20, 30, 40, 50] :: real list"
  have h: "list_all (\<lambda>w. (1.5::real) \<le> w) [1.7, 1.8, 1.9, 2.0, 2.1]
      \<or> list_all (\<lambda>w. w \<le> (1.0::real)) [1.7, 1.8, 1.9, 2.0, 2.1]"
    by simp
  have m: "mask_line bounds_200 [1.7, 1.8, 1.9, 2.0, 2.1] = [False, True, True, False, True]"
    by (simp add: mask_line_def in_bounds_def bounds_200_def)
  have c: "continuum_200 ?fit [1.7, 1.8, 1.9, 2.0, 2.1] ?F = Inr (\<lambda>x. 700)"
    unfolding continuum_200_def continuum_estimator_def m by (simp add: bool_index_def)
  from continuum_estimator_selects [where fit = ?fit and deg = 7
      and wave = "[1.7, 1.8, 1.9, 2.0, 2.1]" and flux = ?F and hi = "1.5" and lo = "1.0"
      and ?bs1.0 = "[]" and ?bs2.0 = bounds_200]
  show ?thesis
    using h m c by simp
qed

text \<open>
  The claim as stated fails: what the estimator returns is what the library's fit returns
  for the selected samples, and that is not their least-squares polynomial.
  \<^verbatim>\<open>fit_generic_continuum\<close> passes the flux through a median filter of width 3 before
  it fits. The eleven samples selected below are zero but for one spike, the filtered flux
  is zero, and so is the continuum the library returns for it; the constant 1, a
  polynomial of degree at most 7, has a smaller sum of squared residuals over the selected
  samples (74 against 81).
\<close>

theorem continuum_fit_not_least_squares_counterexample:
  "continuum_200 (\<lambda>deg w f. Inr (\<lambda>x. 0))
      [1.70, 1.76, 1.78, 1.80, 1.82, 1.84, 1.86, 1.88, 1.90, 1.92, 1.94, 1.96, 2.00]
      [50, 0, 0, 0, 0, 0, 9, 0, 0, 0, 0, 0, 60 :: real]
    = Inr (\<lambda>x :: real. 0 :: real)
   \<and> filter (\<lambda>(w, f). in_bounds bounds_200 w)
        (zip [1.70, 1.76, 1.78, 1.80, 1.82, 1.84, 1.86, 1.88, 1.90, 1.92, 1.94, 1.96, 2.00]
             [50, 0, 0, 0, 0, 0, 9, 0, 0, 0, 0, 0, 60 :: real])
      = [(1.76, 0), (1.78, 0), (1.80, 0), (1.82, 0), (1.84, 0), (1.86, 9), (1.88, 0),
         (1.90, 0), (1.92, 0), (1.94, 0), (1.96, 0)]
   \<and> \<not> ols_fit 7
        [(1.76, 0), (1.78, 0), (1.80, 0), (1.82, 0), (1.84, 0), (1.86, 9), (1.88, 0),
         (1.90, 0), (1.92, 0), (1.94, 0), (1.96, 0)] (\<lambda>x. 0)"
proof -
  let ?W = "[1.70, 1.76, 1.78, 1.80, 1.82, 1.84, 1.86, 1.88, 1.90, 1.92, 1.94, 1.96, 2.00] :: real list"
  let ?F = "[50, 0, 0, 0, 0, 0, 9, 0, 0, 0, 0, 0, 60] :: real list"
  let ?sel = "[(1.76, 0), (1.78, 0), (1.80, 0), (1.82, 0), (1.84, 0), (1.86, 9), (1.88, 0),
         (1.90, 0), (1.92, 0), (1.94, 0), (1.96, 0)] :: (real \<times> real) list"
  have c: "continuum_200 (\<lambda>deg w f. Inr (\<lambda>x. 0)) ?W ?F = Inr (\<lambda>x :: real. 0 :: real)"
    by (simp add: continuum_200_def continuum_estimator_def bool_index_def mask_line_def)
  have f: "filter (\<lambda>(w, f). in_bounds bounds_200 w) (zip ?W ?F) = ?sel"
    by (simp add: in_bounds_def bounds_200_def)
  have lt: "rss ?sel (polynomial [1]) < rss ?sel (\<lambda>x. 0)"
    by (simp add: rss_def polynomial_def)
  have n: "\<not> ols_fit 7 ?sel (\<lambda>x. 0)"
  proof
    assume "ols_fit 7 ?sel (\<lambda>x. 0)"
    then have "\<forall>cs. length cs \<le> 7 + 1 \<longrightarrow> rss ?sel (\<lambda>x. 0) \<le> rss ?sel (polynomial cs)"
      unfolding ols_fit_def by blast
    then have "length [1 :: real] \<le> 7 + 1 \<longrightarrow> rss ?sel (\<lambda>x. 0) \<le> rss ?sel (polynomial [1])"
      by (rule spec)
    then have "rss ?sel (\<lambda>x. 0) \<le> rss ?sel (polynomial [1])"
      by simp
    with lt show False by simp
  qed
  show ?thesis
    using c f n by (intro conjI)
qed

section \<open>Row-resolved loops: lemmas\<close>

lemma row_loop_append:
  "row_loop body (xs @ ys) s =
     (case row_loop body xs s of
        (s', None) \<Rightarrow> row_loop body ys s'
      | (s', Some e) \<Rightarrow> (s', Some e))"
  by (induction xs arbitrary: s) (auto split: prod.splits option.splits)

lemma row_loop_ok_iff:
  assumes step: "\<And>y s s'. I s \<Longrightarrow> (body y s = (s', None)) = (\<exists>v. F y = Inr v \<and> s' = W y v s)"
    and pres: "\<And>y v s. I s \<Longrightarrow> F y = Inr v \<Longrightarrow> I (W y v s)"
    and inv: "I s"
  shows "(row_loop body ys s = (s', None)) =
     ((\<forall>y\<in>set ys. \<exists>v. F y = Inr v) \<and> s' = fold (\<lambda>y. W y (projr (F y))) ys s)"
  using inv
proof (induction ys arbitrary: s)
  case Nil
  show ?case by auto
next
  case (Cons y ys)
  obtain s1 r where b: "body y s = (s1, r)" by (cases "body y s")
  show ?case
  proof (cases r)
    case None
    with b step [OF Cons.prems] obtain v where v: "F y = Inr v" "s1 = W y v s"
      by auto
    have "I s1" using pres [OF Cons.prems v(1)] v(2) by simp
    from Cons.IH [OF this] show ?thesis
      using b None v by simp
  next
    case (Some e)
    have "\<not> (\<exists>v. F y = Inr v)"
    proof
      assume "\<exists>v. F y = Inr v"
      then obtain v where "F y = Inr v" ..
      then have "body y s = (W y v s, None)"
        using step [OF Cons.prems, of y "W y v s"] by auto
      with b Some show False by simp
    qed
    then show ?thesis
      using b Some by auto
  qed
qed

lemma fold_update_length: "length (fold (\<lambda>y t. t[y := g y]) ys s) = length s"
  by (induction ys arbitrary: s) auto

lemma fold_update_nth:
  "j < length s \<Longrightarrow>
   fold (\<lambda>y t. t[y := g y]) ys s ! j = (if j \<in> set ys then g j else s ! j)"
proof (induction ys arbitrary: s rule: rev_induct)
  case Nil
  show ?case by simp
next
  case (snoc x xs)
  show ?case
  proof (cases "x = j")
    case True
    then show ?thesis
      using snoc.prems by (simp add: fold_update_length)
  next
    case False
    then show ?thesis
      using snoc by simp
  qed
qed

lemma fold_update_perm:
  assumes "mset xs = mset ys"
  shows "fold (\<lambda>y t. t[y := g y]) xs s = fold (\<lambda>y t. t[y := g y]) ys s"
proof -
  have "fold (\<lambda>y t. t[y := g y]) xs = fold (\<lambda>y t. t[y := g y]) ys"
  proof (rule fold_multiset_equiv [OF _ assms])
    fix x y
    show "(\<lambda>t. t[x := g x]) \<circ> (\<lambda>t. t[y := g y]) = (\<lambda>t. t[y := g y]) \<circ> (\<lambda>t. t[x := g x])"
      by (cases "x = y") (auto simp: fun_eq_iff list_update_swap)
  qed
  then show ?thesis by simp
qed

subsection \<open>The continuum loop\<close>

lemma cont_of_row_length:
  assumes "cont_of_row fit bounds wrow drow = Inr v"
  shows "length v = length drow"
  using assms
  by (auto simp: cont_of_row_def continuum_estimator_def bool_index_def mask_line_def
      split: sum.splits if_splits)

lemma cont_row_Inr:
  "(cont_row fit bounds wave_2d data_2d yy = Inr v) =
     (yy < length wave_2d \<and> yy < length data_2d
      \<and> cont_of_row fit bounds (wave_2d ! yy) (data_2d ! yy) = Inr v)"
  by (auto simp: cont_row_def get_def split: sum.splits)

lemma cont_body_ok_iff:
  assumes "map length out = map length data_2d"
  shows "(cont_body fit bounds wave_2d data_2d yy out = (out', None)) =
     (\<exists>v. cont_row fit bounds wave_2d data_2d yy = Inr v \<and> out' = out[yy := v])"
proof -
  have len: "length out = length data_2d"
    using assms by (metis length_map)
  have row: "length (out ! yy) = length (data_2d ! yy)" if "yy < length data_2d"
    using assms that len by (metis nth_map)
  show ?thesis
  proof (cases "cont_row fit bounds wave_2d data_2d yy")
    case (Inl e)
    then show ?thesis by (simp add: cont_body_def)
  next
    case (Inr v)
    then have yy: "yy < length data_2d" and lv: "length v = length (data_2d ! yy)"
      using cont_of_row_length by (auto simp: cont_row_Inr)
    then have "assign_row out yy v = Inr (out[yy := v])"
      using len row by (simp add: assign_row_def broadcast_row_def)
    then show ?thesis
      using Inr by (auto simp: cont_body_def)
  qed
qed

lemma cont_shape_preserved:
  assumes "map length out = map length data_2d"
    and "cont_row fit bounds wave_2d data_2d yy = Inr v"
  shows "map length (out[yy := v]) = map length data_2d"
proof -
  have "length v = length (data_2d ! yy)" "yy < length data_2d"
    using assms(2) cont_of_row_length by (auto simp: cont_row_Inr)
  then show ?thesis
    using assms(1) by (metis list_update_id map_update)
qed

lemma zeros_like_shape: "map length (zeros_like data_2d) = map length data_2d"
  by (simp add: zeros_like_def comp_def)

lemma flux_cont2d_in_ok_iff:
  "(flux_cont2d_in order fit bounds wave_2d data_2d = (out, None)) =
     ((\<forall>y\<in>set order. \<exists>v. cont_row fit bounds wave_2d data_2d y = Inr v)
      \<and> out = fold (\<lambda>y t. t[y := projr (cont_row fit bounds wave_2d data_2d y)]) order
                (zeros_like data_2d))"
  unfolding flux_cont2d_in_def
  by (rule row_loop_ok_iff [where I = "\<lambda>s. map length s = map length data_2d"
        and W = "\<lambda>y v s. s[y := v]"])
     (simp_all add: cont_body_ok_iff cont_shape_preserved zeros_like_shape)

subsection \<open>The emission-line loop\<close>

lemma assign_row_shape:
  assumes "length a = rsq" "list_all (\<lambda>r. length r = rsq) a"
  shows "assign_row a yy v =
     (if rsq \<le> yy then Inl IndexError
      else if fits_row rsq v then Inr (a[yy := broadcast_row rsq v])
      else Inl ValueError)"
proof (cases "yy < rsq")
  case True
  then have "length (a ! yy) = rsq"
    using assms by (simp add: list_all_length)
  then show ?thesis
    using True assms(1) by (simp add: assign_row_def fits_row_def)
next
  case False
  then show ?thesis
    using assms(1) by (simp add: assign_row_def)
qed

lemma broadcast_row_length: "fits_row rsq v \<Longrightarrow> length (broadcast_row rsq v) = rsq"
  by (auto simp: broadcast_row_def)

lemma line_row_Inr:
  "(line_row fit_lines wave_2d line_2d yy = Inr (wrow, g)) =
     (yy < length wave_2d \<and> yy < length line_2d \<and> wrow = wave_2d ! yy
      \<and> line_of_row fit_lines (wave_2d ! yy) (line_2d ! yy) = Inr g)"
  by (auto simp: line_row_def get_def split: sum.splits)

lemma line_body_ok_iff:
  assumes "cuts_shape rsq s"
  shows "(line_body fit_lines wave_2d line_2d rsq yy s = (s', None)) =
     (\<exists>v. cuts_at fit_lines wave_2d line_2d rsq yy = Inr v \<and> s' = write_cuts yy v s)"
proof -
  note sh = assms [unfolded cuts_shape_def]
  have a1: "assign_row (cut_hb s) yy v =
     (if rsq \<le> yy then Inl IndexError
      else if fits_row rsq v then Inr ((cut_hb s)[yy := broadcast_row rsq v])
      else Inl ValueError)" for v
    using sh by (intro assign_row_shape) auto
  have a2: "assign_row (cut_o3b s) yy v =
     (if rsq \<le> yy then Inl IndexError
      else if fits_row rsq v then Inr ((cut_o3b s)[yy := broadcast_row rsq v])
      else Inl ValueError)" for v
    using sh by (intro assign_row_shape) auto
  have a3: "assign_row (cut_o3r s) yy v =
     (if rsq \<le> yy then Inl IndexError
      else if fits_row rsq v then Inr ((cut_o3r s)[yy := broadcast_row rsq v])
      else Inl ValueError)" for v
    using sh by (intro assign_row_shape) auto
  show ?thesis
  proof (cases "line_row fit_lines wave_2d line_2d yy")
    case (Inl e)
    then have "\<not> (yy < length wave_2d \<and> yy < length line_2d
        \<and> (\<exists>g. line_of_row fit_lines (wave_2d ! yy) (line_2d ! yy) = Inr g))"
      by (auto simp: line_row_def get_def split: sum.splits if_splits)
    then have "\<not> (\<exists>v. cuts_at fit_lines wave_2d line_2d rsq yy = Inr v)"
      by (auto simp: cuts_at_def cuts_of_row_def split: sum.splits if_splits)
    then show ?thesis
      using Inl by (simp add: line_body_def)
  next
    case (Inr r)
    obtain wrow g1 g2 g3 where r: "r = (wrow, g1, g2, g3)"
      by (cases r) auto
    from Inr r have yy: "yy < length wave_2d" "yy < length line_2d"
      and w: "wrow = wave_2d ! yy"
      and g: "line_of_row fit_lines (wave_2d ! yy) (line_2d ! yy) = Inr (g1, g2, g3)"
      by (auto simp: line_row_Inr)
    show ?thesis
      unfolding line_body_def Inr r cuts_at_def cuts_of_row_def a1 a2 a3 write_cuts_def
      using yy g w
      by (auto split: sum.splits)
  qed
qed

lemma write_cuts_shape:
  assumes "cuts_shape rsq s" "cuts_at fit_lines wave_2d line_2d rsq yy = Inr v"
  shows "cuts_shape rsq (write_cuts yy v s)"
proof -
  obtain v1 v2 v3 where v: "v = (v1, v2, v3)" by (cases v) auto
  have "length v1 = rsq \<and> length v2 = rsq \<and> length v3 = rsq"
    using assms(2) unfolding v cuts_at_def cuts_of_row_def
    by (auto split: if_splits sum.splits simp: broadcast_row_length)
  then show ?thesis
    using assms(1) unfolding cuts_shape_def v write_cuts_def list_all_iff
    by (auto dest!: set_update_subset_insert [THEN subsetD])
qed

lemma zeros_sq_shape: "cuts_shape rsq (zeros_sq rsq)"
  by (simp add: cuts_shape_def zeros_sq_def list_all_iff)

lemma cut_maps_in_ok_iff:
  "(cut_maps_in order fit_lines wave_2d line_2d data_2d = (s, None)) =
     ((\<forall>y\<in>set order. \<exists>v. cuts_at fit_lines wave_2d line_2d (length data_2d) y = Inr v)
      \<and> s = fold (\<lambda>y. write_cuts y (projr (cuts_at fit_lines wave_2d line_2d (length data_2d) y)))
               order (zeros_sq (length data_2d)))"
  unfolding cut_maps_in_def
  by (rule row_loop_ok_iff [where I = "cuts_shape (length data_2d)"])
     (simp_all add: line_body_ok_iff write_cuts_shape zeros_sq_shape)

lemma fold_write_cuts:
  "fold (\<lambda>y. write_cuts y (g y)) ys s =
     s\<lparr>cut_hb := fold (\<lambda>y t. t[y := fst (g y)]) ys (cut_hb s),
       cut_o3b := fold (\<lambda>y t. t[y := fst (snd (g y))]) ys (cut_o3b s),
       cut_o3r := fold (\<lambda>y t. t[y := snd (snd (g y))]) ys (cut_o3r s)\<rparr>"
  by (induction ys arbitrary: s) (auto simp: write_cuts_def split: prod.splits)

lemma fold_write_cuts_perm:
  assumes "mset xs = mset ys"
  shows "fold (\<lambda>y. write_cuts y (g y)) xs s = fold (\<lambda>y. write_cuts y (g y)) ys s"
  unfolding fold_write_cuts
  by (simp add: fold_update_perm [OF assms])

lemma cont_loop_any_order:
  assumes "mset order = mset [0 ..< length data_2d]"
  shows "(flux_cont2d_in order fit bounds wave_2d data_2d = (out, None)) =
     (flux_cont2d fit bounds wave_2d data_2d = (out, None))"
proof -
  have "set order = set [0 ..< length data_2d]"
    using assms by (rule mset_eq_setD)
  then show ?thesis
    unfolding flux_cont2d_def flux_cont2d_in_ok_iff
    by (simp add: fold_update_perm [OF assms])
qed

lemma cont_loop_rows:
  assumes "flux_cont2d fit bounds wave_2d data_2d = (out, None)" "yy < length data_2d"
  shows "length out = length data_2d"
    and "cont_of_row fit bounds (wave_2d ! yy) (data_2d ! yy) = Inr (out ! yy)"
proof -
  from assms(1) have ok: "\<forall>y\<in>set [0 ..< length data_2d]. \<exists>v. cont_row fit bounds wave_2d data_2d y = Inr v"
    and out: "out = fold (\<lambda>y t. t[y := projr (cont_row fit bounds wave_2d data_2d y)])
        [0 ..< length data_2d] (zeros_like data_2d)"
    unfolding flux_cont2d_def flux_cont2d_in_ok_iff by auto
  show len: "length out = length data_2d"
    by (simp add: out fold_update_length zeros_like_def)
  from ok assms(2) obtain v where v: "cont_row fit bounds wave_2d data_2d yy = Inr v"
    by force
  have "out ! yy = v"
    unfolding out using assms(2) v
    by (subst fold_update_nth) (simp_all add: zeros_like_def)
  then show "cont_of_row fit bounds (wave_2d ! yy) (data_2d ! yy) = Inr (out ! yy)"
    using v by (simp add: cont_row_Inr)
qed

lemma line_loop_any_order:
  assumes "mset order = mset [0 ..< length data_2d]"
  shows "(cut_maps_in order fit_lines wave_2d line_2d data_2d = (s, None)) =
     (cut_maps fit_lines wave_2d line_2d data_2d = (s, None))"
proof -
  have "set order = set [0 ..< length data_2d]"
    using assms by (rule mset_eq_setD)
  then show ?thesis
    unfolding cut_maps_def cut_maps_in_ok_iff
    by (simp add: fold_write_cuts_perm [OF assms])
qed

lemma line_loop_rows:
  assumes "cut_maps fit_lines wave_2d line_2d data_2d = (s, None)" "yy < length data_2d"
  shows "cuts_of_row fit_lines (length data_2d) (wave_2d ! yy) (line_2d ! yy)
     = Inr (cut_hb s ! yy, cut_o3b s ! yy, cut_o3r s ! yy)"
proof -
  let ?g = "\<lambda>y. projr (cuts_at fit_lines wave_2d line_2d (length data_2d) y)"
  from assms(1) have ok: "\<forall>y\<in>set [0 ..< length data_2d]. \<exists>v. cuts_at fit_lines wave_2d line_2d (length data_2d) y = Inr v"
    and s: "s = fold (\<lambda>y. write_cuts y (?g y)) [0 ..< length data_2d] (zeros_sq (length data_2d))"
    unfolding cut_maps_def cut_maps_in_ok_iff by auto
  from ok assms(2) obtain v where v: "cuts_at fit_lines wave_2d line_2d (length data_2d) yy = Inr v"
    by force
  have "cut_hb s ! yy = fst v" "cut_o3b s ! yy = fst (snd v)" "cut_o3r s ! yy = snd (snd v)"
    unfolding s fold_write_cuts using assms(2) v
    by (simp_all add: fold_update_nth zeros_sq_def)
  then have "v = (cut_hb s ! yy, cut_o3b s ! yy, cut_o3r s ! yy)"
    by (cases v) auto
  then show ?thesis
    using v by (auto simp: cuts_at_def split: if_splits)
qed

lemma fold_update_map:
  assumes "set ys = {0 ..< length s}"
  shows "fold (\<lambda>y t. t[y := g y]) ys s = map g [0 ..< length s]"
proof (rule nth_equalityI)
  show "length (fold (\<lambda>y t. t[y := g y]) ys s) = length (map g [0 ..< length s])"
    by (simp add: fold_update_length)
next
  fix i
  assume "i < length (fold (\<lambda>y t. t[y := g y]) ys s)"
  then have i: "i < length s"
    by (simp add: fold_update_length)
  then show "fold (\<lambda>y t. t[y := g y]) ys s ! i = map g [0 ..< length s] ! i"
    using assms by (simp add: fold_update_nth)
qed

lemma cont_loop_map:
  assumes "mset order = mset [0 ..< length data_2d]"
    and "\<forall>yy<length data_2d. yy < length wave_2d
        \<and> (\<exists>v. cont_of_row fit bounds (wave_2d ! yy) (data_2d ! yy) = Inr v)"
  shows "flux_cont2d_in order fit bounds wave_2d data_2d =
     (map (\<lambda>yy. projr (cont_of_row fit bounds (wave_2d ! yy) (data_2d ! yy)))
        [0 ..< length data_2d], None)"
proof -
  have st: "set order = {0 ..< length data_2d}"
    using mset_eq_setD [OF assms(1)] by simp
  have row: "cont_row fit bounds wave_2d data_2d yy
      = cont_of_row fit bounds (wave_2d ! yy) (data_2d ! yy)" if "yy < length data_2d" for yy
    using that assms(2) by (simp add: cont_row_def get_def)
  have ok: "\<forall>y\<in>set order. \<exists>v. cont_row fit bounds wave_2d data_2d y = Inr v"
    using st row assms(2) by simp
  have "fold (\<lambda>y t. t[y := projr (cont_row fit bounds wave_2d data_2d y)]) order
        (zeros_like data_2d)
      = map (\<lambda>y. projr (cont_row fit bounds wave_2d data_2d y)) [0 ..< length (zeros_like data_2d)]"
    by (rule fold_update_map) (simp add: st zeros_like_def)
  also have "\<dots> = map (\<lambda>yy. projr (cont_of_row fit bounds (wave_2d ! yy) (data_2d ! yy)))
        [0 ..< length data_2d]"
    by (simp add: zeros_like_def row)
  finally show ?thesis
    unfolding flux_cont2d_in_ok_iff using ok by simp
qed

lemma line_loop_map:
  assumes "mset order = mset [0 ..< length data_2d]"
    and "\<forall>yy<length data_2d. yy < length wave_2d \<and> yy < length line_2d
        \<and> (\<exists>v. cuts_of_row fit_lines (length data_2d) (wave_2d ! yy) (line_2d ! yy) = Inr v)"
  shows "cut_maps_in order fit_lines wave_2d line_2d data_2d =
     (\<lparr>cut_hb = map (\<lambda>yy. fst (projr (cuts_of_row fit_lines (length data_2d)
                    (wave_2d ! yy) (line_2d ! yy)))) [0 ..< length data_2d],
        cut_o3b = map (\<lambda>yy. fst (snd (projr (cuts_of_row fit_lines (length data_2d)
                    (wave_2d ! yy) (line_2d ! yy))))) [0 ..< length data_2d],
        cut_o3r = map (\<lambda>yy. snd (snd (projr (cuts_of_row fit_lines (length data_2d)
                    (wave_2d ! yy) (line_2d ! yy))))) [0 ..< length data_2d]\<rparr>, None)"
proof -
  let ?n = "length data_2d"
  let ?g = "\<lambda>y. projr (cuts_at fit_lines wave_2d line_2d ?n y)"
  have st: "set order = {0 ..< ?n}"
    using mset_eq_setD [OF assms(1)] by simp
  have row: "cuts_at fit_lines wave_2d line_2d ?n yy
      = cuts_of_row fit_lines ?n (wave_2d ! yy) (line_2d ! yy)" if "yy < ?n" for yy
    using that assms(2) by (simp add: cuts_at_def)
  have ok: "\<forall>y\<in>set order. \<exists>v. cuts_at fit_lines wave_2d line_2d ?n y = Inr v"
    using st row assms(2) by simp
  have z: "length (replicate ?n (replicate ?n (Fin 0))) = ?n"
    by simp
  have f: "fold (\<lambda>y t. t[y := h y]) order (replicate ?n (replicate ?n (Fin 0)))
      = map h [0 ..< ?n]" for h :: "nat \<Rightarrow> fnum list"
    using fold_update_map [of order "replicate ?n (replicate ?n (Fin 0))" h] st by simp
  have "fold (\<lambda>y. write_cuts y (?g y)) order (zeros_sq ?n)
      = \<lparr>cut_hb = map (\<lambda>y. fst (?g y)) [0 ..< ?n],
          cut_o3b = map (\<lambda>y. fst (snd (?g y))) [0 ..< ?n],
          cut_o3r = map (\<lambda>y. snd (snd (?g y))) [0 ..< ?n]\<rparr>"
    unfolding fold_write_cuts by (simp add: zeros_sq_def f)
  also have "\<dots> = \<lparr>cut_hb = map (\<lambda>yy. fst (projr (cuts_of_row fit_lines ?n
                    (wave_2d ! yy) (line_2d ! yy)))) [0 ..< ?n],
        cut_o3b = map (\<lambda>yy. fst (snd (projr (cuts_of_row fit_lines ?n
                    (wave_2d ! yy) (line_2d ! yy))))) [0 ..< ?n],
        cut_o3r = map (\<lambda>yy. snd (snd (projr (cuts_of_row fit_lines ?n
                    (wave_2d ! yy) (line_2d ! yy))))) [0 ..< ?n]\<rparr>"
    by (simp add: row)
  finally show ?thesis
    unfolding cut_maps_in_ok_iff using ok by simp
qed

lemma cont_body_frame:
  assumes "cont_body fit bounds wave_2d data_2d yy t = (t', r)" "j \<noteq> yy"
  shows "t' ! j = t ! j"
  using assms
  by (auto simp: cont_body_def assign_row_def split: sum.splits if_splits)

lemma line_body_frame:
  assumes "line_body fit_lines wave_2d line_2d rsq yy s = (s', r)" "j \<noteq> yy"
  shows "cut_hb s' ! j = cut_hb s ! j \<and> cut_o3b s' ! j = cut_o3b s ! j
     \<and> cut_o3r s' ! j = cut_o3r s ! j"
  using assms
  by (auto simp: line_body_def assign_row_def split: sum.splits if_splits prod.splits)

lemma cont_body_local:
  assumes "get wave_2d' yy = get wave_2d yy" "get data_2d' yy = get data_2d yy"
  shows "cont_body fit bounds wave_2d' data_2d' yy = cont_body fit bounds wave_2d data_2d yy"
proof -
  have "cont_row fit bounds wave_2d' data_2d' yy = cont_row fit bounds wave_2d data_2d yy"
    unfolding cont_row_def assms ..
  then show ?thesis
    by (simp add: cont_body_def fun_eq_iff)
qed

lemma line_body_local:
  assumes "get wave_2d' yy = get wave_2d yy" "get line_2d' yy = get line_2d yy"
  shows "line_body fit_lines wave_2d' line_2d' rsq yy = line_body fit_lines wave_2d line_2d rsq yy"
proof -
  have "line_row fit_lines wave_2d' line_2d' yy = line_row fit_lines wave_2d line_2d yy"
    unfolding line_row_def assms ..
  then show ?thesis
    by (simp add: line_body_def fun_eq_iff)
qed

section \<open>Row-resolved loops: the claims\<close>

text \<open>
  Claim C8, amended. Provided that no row raises, the order of the rows does not matter:
  run in any order, each of the two loops completes exactly when the sequential loop
  completes, and with the same arrays; row \<open>yy\<close> of the result is the row function
  (\<open>cont_of_row\<close>, \<open>cuts_of_row\<close>) of row \<open>yy\<close> of the inputs. When the row function
  returns for every row, the loop completes in every order and its result is the map of
  the row function over the rows. An iteration leaves every other row of its output as it
  was, and it is the same iteration on any inputs that agree on row \<open>yy\<close>.
\<close>

theorem row_loops_any_order:
  assumes "mset order = mset [0 ..< length data_2d]"
  shows "(flux_cont2d_in order fit bounds wave_2d data_2d = (out, None))
       = (flux_cont2d fit bounds wave_2d data_2d = (out, None))
     \<and> (flux_cont2d fit bounds wave_2d data_2d = (out, None) \<longrightarrow>
          length out = length data_2d
          \<and> (\<forall>yy<length data_2d.
                cont_of_row fit bounds (wave_2d ! yy) (data_2d ! yy) = Inr (out ! yy)))
     \<and> (cut_maps_in order fit_lines wave_2d line_2d data_2d = (s, None))
       = (cut_maps fit_lines wave_2d line_2d data_2d = (s, None))
     \<and> (cut_maps fit_lines wave_2d line_2d data_2d = (s, None) \<longrightarrow>
          (\<forall>yy<length data_2d.
             cuts_of_row fit_lines (length data_2d) (wave_2d ! yy) (line_2d ! yy)
               = Inr (cut_hb s ! yy, cut_o3b s ! yy, cut_o3r s ! yy)))
     \<and> ((\<forall>yy<length data_2d. yy < length wave_2d
            \<and> (\<exists>v. cont_of_row fit bounds (wave_2d ! yy) (data_2d ! yy) = Inr v)) \<longrightarrow>
          flux_cont2d_in order fit bounds wave_2d data_2d =
            (map (\<lambda>yy. projr (cont_of_row fit bounds (wave_2d ! yy) (data_2d ! yy)))
               [0 ..< length data_2d], None))
     \<and> ((\<forall>yy<length data_2d. yy < length wave_2d \<and> yy < length line_2d
            \<and> (\<exists>v. cuts_of_row fit_lines (length data_2d) (wave_2d ! yy) (line_2d ! yy) = Inr v)) \<longrightarrow>
          cut_maps_in order fit_lines wave_2d line_2d data_2d =
            (\<lparr>cut_hb = map (\<lambda>yy. fst (projr (cuts_of_row fit_lines (length data_2d)
                           (wave_2d ! yy) (line_2d ! yy)))) [0 ..< length data_2d],
               cut_o3b = map (\<lambda>yy. fst (snd (projr (cuts_of_row fit_lines (length data_2d)
                           (wave_2d ! yy) (line_2d ! yy))))) [0 ..< length data_2d],
               cut_o3r = map (\<lambda>yy. snd (snd (projr (cuts_of_row fit_lines (length data_2d)
                           (wave_2d ! yy) (line_2d ! yy))))) [0 ..< length data_2d]\<rparr>, None))
     \<and> (\<forall>yy t t' r j. cont_body fit bounds wave_2d data_2d yy t = (t', r) \<and> j \<noteq> yy \<longrightarrow>
          t' ! j = t ! j)
     \<and> (\<forall>yy u u' r j. line_body fit_lines wave_2d line_2d rsq yy u = (u', r) \<and> j \<noteq> yy \<longrightarrow>
          cut_hb u' ! j = cut_hb u ! j \<and> cut_o3b u' ! j = cut_o3b u ! j
          \<and> cut_o3r u' ! j = cut_o3r u ! j)
     \<and> (\<forall>yy w' d'. get w' yy = get wave_2d yy \<and> get d' yy = get data_2d yy \<longrightarrow>
          cont_body fit bounds w' d' yy = cont_body fit bounds wave_2d data_2d yy)
     \<and> (\<forall>yy w' l'. get w' yy = get wave_2d yy \<and> get l' yy = get line_2d yy \<longrightarrow>
          line_body fit_lines w' l' rsq yy = line_body fit_lines wave_2d line_2d rsq yy)"
proof -
  have m1: "(\<forall>yy<length data_2d. yy < length wave_2d
            \<and> (\<exists>v. cont_of_row fit bounds (wave_2d ! yy) (data_2d ! yy) = Inr v)) \<longrightarrow>
          flux_cont2d_in order fit bounds wave_2d data_2d =
            (map (\<lambda>yy. projr (cont_of_row fit bounds (wave_2d ! yy) (data_2d ! yy)))
               [0 ..< length data_2d], None)"
    using cont_loop_map [OF assms] by blast
  have m2: "(\<forall>yy<length data_2d. yy < length wave_2d \<and> yy < length line_2d
            \<and> (\<exists>v. cuts_of_row fit_lines (length data_2d) (wave_2d ! yy) (line_2d ! yy) = Inr v)) \<longrightarrow>
          cut_maps_in order fit_lines wave_2d line_2d data_2d =
            (\<lparr>cut_hb = map (\<lambda>yy. fst (projr (cuts_of_row fit_lines (length data_2d)
                           (wave_2d ! yy) (line_2d ! yy)))) [0 ..< length data_2d],
               cut_o3b = map (\<lambda>yy. fst (snd (projr (cuts_of_row fit_lines (length data_2d)
                           (wave_2d ! yy) (line_2d ! yy))))) [0 ..< length data_2d],
               cut_o3r = map (\<lambda>yy. snd (snd (projr (cuts_of_row fit_lines (length data_2d)
                           (wave_2d ! yy) (line_2d ! yy))))) [0 ..< length data_2d]\<rparr>, None)"
    using line_loop_map [OF assms] by blast
  have c1: "(flux_cont2d_in order fit bounds wave_2d data_2d = (out, None))
       = (flux_cont2d fit bounds wave_2d data_2d = (out, None))"
    by (rule cont_loop_any_order [OF assms])
  have c2: "flux_cont2d fit bounds wave_2d data_2d = (out, None) \<longrightarrow>
          length out = length data_2d
          \<and> (\<forall>yy<length data_2d.
                cont_of_row fit bounds (wave_2d ! yy) (data_2d ! yy) = Inr (out ! yy))"
  proof (cases "data_2d = []")
    case True
    then show ?thesis
      by (simp add: flux_cont2d_def flux_cont2d_in_def zeros_like_def)
  next
    case False
    then have "0 < length data_2d" by simp
    then show ?thesis
      using cont_loop_rows [of fit bounds wave_2d data_2d out] by blast
  qed
  have c3: "(cut_maps_in order fit_lines wave_2d line_2d data_2d = (s, None))
       = (cut_maps fit_lines wave_2d line_2d data_2d = (s, None))"
    by (rule line_loop_any_order [OF assms])
  have c4: "cut_maps fit_lines wave_2d line_2d data_2d = (s, None) \<longrightarrow>
          (\<forall>yy<length data_2d.
             cuts_of_row fit_lines (length data_2d) (wave_2d ! yy) (line_2d ! yy)
               = Inr (cut_hb s ! yy, cut_o3b s ! yy, cut_o3r s ! yy))"
    using line_loop_rows [of fit_lines wave_2d line_2d data_2d s] by blast
  have c5: "\<forall>yy t t' r j. cont_body fit bounds wave_2d data_2d yy t = (t', r) \<and> j \<noteq> yy \<longrightarrow>
          t' ! j = t ! j"
    using cont_body_frame by blast
  have c6: "\<forall>yy u u' r j. line_body fit_lines wave_2d line_2d rsq yy u = (u', r) \<and> j \<noteq> yy \<longrightarrow>
          cut_hb u' ! j = cut_hb u ! j \<and> cut_o3b u' ! j = cut_o3b u ! j
          \<and> cut_o3r u' ! j = cut_o3r u ! j"
    using line_body_frame by blast
  have c7: "\<forall>yy w' d'. get w' yy = get wave_2d yy \<and> get d' yy = get data_2d yy \<longrightarrow>
          cont_body fit bounds w' d' yy = cont_body fit bounds wave_2d data_2d yy"
    using cont_body_local by blast
  have c8: "\<forall>yy w' l'. get w' yy = get wave_2d yy \<and> get l' yy = get line_2d yy \<longrightarrow>
          line_body fit_lines w' l' rsq yy = line_body fit_lines wave_2d line_2d rsq yy"
    using line_body_local by blast
  show ?thesis
    using c1 c2 c3 c4 m1 m2 c5 c6 c7 c8 by (intro conjI)
qed

lemma upt2: "[0 ..< 2] = [0, 1]"
  by (simp add: upt_rec)

lemma row_loops_ex_cont:
  "flux_cont2d (\<lambda>deg w f. Inr (\<lambda>x. foldr fadd f (Fin 0))) bounds_150
      [[1.40, 1.45, 1.50, 1.55, 1.60], [1.41, 1.46, 1.51, 1.56, 1.61]]
      [[Fin 1, Fin 2, Fin 3, Fin 4, Fin 5], [Fin 6, Fin 7, Fin 8, Fin 9, Fin 10]]
    = ([[Fin 3, Fin 3, Fin 3, Fin 3, Fin 3], [Fin 23, Fin 23, Fin 23, Fin 23, Fin 23]], None)"
  by (simp add: flux_cont2d_def flux_cont2d_in_def upt2 zeros_like_def cont_body_def
      cont_row_def get_def cont_of_row_def continuum_estimator_def mask_line_def in_bounds_def
      bounds_150_def bool_index_def assign_row_def broadcast_row_def)

lemma row_loops_ex_line:
  "cut_maps (\<lambda>w f. Inr (\<lambda>x. Fin 1, \<lambda>x. Fin 2, \<lambda>x. foldr fadd f (Fin 0)))
      [[1.40, 1.45, 1.50, 1.55, 1.60], [1.41, 1.46, 1.51, 1.56, 1.61]]
      [[Fin 1, Fin 2, Fin 3, Fin 4, Fin 5], [Fin 6, Fin 7, Fin 8, Fin 9, Fin 10]]
      [[Fin 1, Fin 2, Fin 3, Fin 4, Fin 5], [Fin 6, Fin 7, Fin 8, Fin 9, Fin 10]]
    = (\<lparr>cut_hb = [[Fin 1, Fin 1], [Fin 1, Fin 1]], cut_o3b = [[Fin 2, Fin 2], [Fin 2, Fin 2]],
         cut_o3r = [[Fin 14, Fin 14], [Fin 40, Fin 40]]\<rparr>, None)"
  by (simp add: cut_maps_def cut_maps_in_def upt2 zeros_sq_def line_body_def line_row_def
      line_of_row_def get_def bool_index_def cut_row_def lamcen_hb_def lamcen_o3b_def
      lamcen_o3r_def zin_def argmin_def int_of_float_def py_slice_def slice_bound_def
      assign_row_def broadcast_row_def)

theorem row_loops_any_order_witness:
  "mset [1, 0]
     = mset [0 ..< length [[Fin 1, Fin 2, Fin 3, Fin 4, Fin 5], [Fin 6, Fin 7, Fin 8, Fin 9, Fin 10]]]
   \<and> flux_cont2d_in [1, 0] (\<lambda>deg w f. Inr (\<lambda>x. foldr fadd f (Fin 0))) bounds_150
      [[1.40, 1.45, 1.50, 1.55, 1.60], [1.41, 1.46, 1.51, 1.56, 1.61]]
      [[Fin 1, Fin 2, Fin 3, Fin 4, Fin 5], [Fin 6, Fin 7, Fin 8, Fin 9, Fin 10]]
    = ([[Fin 3, Fin 3, Fin 3, Fin 3, Fin 3], [Fin 23, Fin 23, Fin 23, Fin 23, Fin 23]], None)
   \<and> cut_maps_in [1, 0] (\<lambda>w f. Inr (\<lambda>x. Fin 1, \<lambda>x. Fin 2, \<lambda>x. foldr fadd f (Fin 0)))
      [[1.40, 1.45, 1.50, 1.55, 1.60], [1.41, 1.46, 1.51, 1.56, 1.61]]
      [[Fin 1, Fin 2, Fin 3, Fin 4, Fin 5], [Fin 6, Fin 7, Fin 8, Fin 9, Fin 10]]
      [[Fin 1, Fin 2, Fin 3, Fin 4, Fin 5], [Fin 6, Fin 7, Fin 8, Fin 9, Fin 10]]
    = (\<lparr>cut_hb = [[Fin 1, Fin 1], [Fin 1, Fin 1]], cut_o3b = [[Fin 2, Fin 2], [Fin 2, Fin 2]],
         cut_o3r = [[Fin 14, Fin 14], [Fin 40, Fin 40]]\<rparr>, None)"
proof -
  let ?D = "[[Fin 1, Fin 2, Fin 3, Fin 4, Fin 5], [Fin 6, Fin 7, Fin 8, Fin 9, Fin 10]]"
  have h: "mset [1, 0] = mset [0 ..< length ?D]"
    by (simp add: upt2)
  from row_loops_any_order [OF h, of "\<lambda>deg w f. Inr (\<lambda>x. foldr fadd f (Fin 0))" bounds_150
      "[[1.40, 1.45, 1.50, 1.55, 1.60], [1.41, 1.46, 1.51, 1.56, 1.61]]"
      "[[Fin 3, Fin 3, Fin 3, Fin 3, Fin 3], [Fin 23, Fin 23, Fin 23, Fin 23, Fin 23]]"
      "\<lambda>w f. Inr (\<lambda>x. Fin 1, \<lambda>x. Fin 2, \<lambda>x. foldr fadd f (Fin 0))" ?D
      "\<lparr>cut_hb = [[Fin 1, Fin 1], [Fin 1, Fin 1]], cut_o3b = [[Fin 2, Fin 2], [Fin 2, Fin 2]],
        cut_o3r = [[Fin 14, Fin 14], [Fin 40, Fin 40]]\<rparr>"]
  show ?thesis
    using h row_loops_ex_cont row_loops_ex_line by blast
qed

text \<open>
  The claim as stated fails when a row raises. With a fit that raises on an empty sample
  set, row 1 below has no continuum sample. The sequential loop has written row 0 when it
  stops at row 1; the same iterations in the order 1, 0 stop at once, and row 0 is never
  written.
\<close>

theorem row_loops_order_counterexample:
  "mset [1, 0]
     = mset [0 ..< length [[Fin 1, Fin 2, Fin 3, Fin 4, Fin 5], [Fin 6, Fin 7, Fin 8, Fin 9, Fin 10]]]
   \<and> flux_cont2d (\<lambda>deg w f. if w = [] then Inl ValueError else Inr (\<lambda>x. foldr fadd f (Fin 0)))
        bounds_150 [[1.40, 1.45, 1.50, 1.55, 1.60], [1.0, 1.1, 1.2, 1.3, 1.35]]
        [[Fin 1, Fin 2, Fin 3, Fin 4, Fin 5], [Fin 6, Fin 7, Fin 8, Fin 9, Fin 10]]
      = ([[Fin 3, Fin 3, Fin 3, Fin 3, Fin 3], [Fin 0, Fin 0, Fin 0, Fin 0, Fin 0]],
         Some ValueError)
   \<and> flux_cont2d_in [1, 0]
        (\<lambda>deg w f. if w = [] then Inl ValueError else Inr (\<lambda>x. foldr fadd f (Fin 0)))
        bounds_150 [[1.40, 1.45, 1.50, 1.55, 1.60], [1.0, 1.1, 1.2, 1.3, 1.35]]
        [[Fin 1, Fin 2, Fin 3, Fin 4, Fin 5], [Fin 6, Fin 7, Fin 8, Fin 9, Fin 10]]
      = ([[Fin 0, Fin 0, Fin 0, Fin 0, Fin 0], [Fin 0, Fin 0, Fin 0, Fin 0, Fin 0]],
         Some ValueError)"
  by (simp add: flux_cont2d_def flux_cont2d_in_def upt2 zeros_like_def cont_body_def
      cont_row_def get_def cont_of_row_def continuum_estimator_def mask_line_def in_bounds_def
      bounds_150_def bool_index_def assign_row_def broadcast_row_def)

lemma upt_split:
  assumes "k < n"
  shows "[0 ..< n] = [0 ..< k] @ k # [Suc k ..< n]"
proof -
  have "[0 ..< n] = [0 ..< k] @ [k ..< n]"
    using assms upt_add_eq_append [of 0 k "n - k"] by simp
  then show ?thesis
    using assms by (simp add: upt_conv_Cons)
qed

lemma fscale_zero: "fscale 0 x = (case x of Fin a \<Rightarrow> Fin 0 | _ \<Rightarrow> NaN)"
  by (cases x) simp_all

lemma cont_rows_untouched:
  assumes "flux_cont2d_in [0 ..< k] fit bounds wave_2d data_2d = (out, None)"
    and "k \<le> j" "j < length data_2d"
  shows "out ! j = map (\<lambda>x. case x of Fin a \<Rightarrow> Fin 0 | _ \<Rightarrow> NaN) (data_2d ! j)"
proof -
  from assms(1) have "out = fold (\<lambda>y t. t[y := projr (cont_row fit bounds wave_2d data_2d y)])
      [0 ..< k] (zeros_like data_2d)"
    unfolding flux_cont2d_in_ok_iff by simp
  then have "out ! j = zeros_like data_2d ! j"
    using assms(2,3) by (simp add: fold_update_nth zeros_like_def)
  then show ?thesis
    using assms(3) by (simp add: zeros_like_def fscale_zero [abs_def])
qed

lemma cut_rows_untouched:
  assumes "cut_maps_in [0 ..< k] fit_lines wave_2d line_2d data_2d = (s, None)"
    and "k \<le> j" "j < length data_2d"
  shows "cut_hb s ! j = replicate (length data_2d) (Fin 0)
     \<and> cut_o3b s ! j = replicate (length data_2d) (Fin 0)
     \<and> cut_o3r s ! j = replicate (length data_2d) (Fin 0)"
proof -
  from assms(1) have "s = fold (\<lambda>y. write_cuts y
        (projr (cuts_at fit_lines wave_2d line_2d (length data_2d) y)))
      [0 ..< k] (zeros_sq (length data_2d))"
    unfolding cut_maps_in_ok_iff by simp
  then show ?thesis
    using assms(2,3) unfolding fold_write_cuts
    by (simp add: fold_update_nth zeros_sq_def)
qed

lemma cont_rows_done:
  assumes "flux_cont2d_in [0 ..< k] fit bounds wave_2d data_2d = (out, None)"
    and "j < k" "k < length data_2d"
  shows "cont_of_row fit bounds (wave_2d ! j) (data_2d ! j) = Inr (out ! j)"
proof -
  from assms(1) have ok: "\<forall>y\<in>set [0 ..< k]. \<exists>v. cont_row fit bounds wave_2d data_2d y = Inr v"
    and out: "out = fold (\<lambda>y t. t[y := projr (cont_row fit bounds wave_2d data_2d y)])
        [0 ..< k] (zeros_like data_2d)"
    unfolding flux_cont2d_in_ok_iff by auto
  from ok assms(2) obtain v where v: "cont_row fit bounds wave_2d data_2d j = Inr v"
    by force
  have "out ! j = v"
    unfolding out using assms(2,3) v
    by (subst fold_update_nth) (simp_all add: zeros_like_def)
  then show ?thesis
    using v by (simp add: cont_row_Inr)
qed

lemma cut_rows_done:
  assumes "cut_maps_in [0 ..< k] fit_lines wave_2d line_2d data_2d = (s, None)"
    and "j < k" "k < length data_2d"
  shows "cuts_of_row fit_lines (length data_2d) (wave_2d ! j) (line_2d ! j)
     = Inr (cut_hb s ! j, cut_o3b s ! j, cut_o3r s ! j)"
proof -
  let ?g = "\<lambda>y. projr (cuts_at fit_lines wave_2d line_2d (length data_2d) y)"
  from assms(1) have ok: "\<forall>y\<in>set [0 ..< k]. \<exists>v. cuts_at fit_lines wave_2d line_2d (length data_2d) y = Inr v"
    and s: "s = fold (\<lambda>y. write_cuts y (?g y)) [0 ..< k] (zeros_sq (length data_2d))"
    unfolding cut_maps_in_ok_iff by auto
  from ok assms(2) obtain v where v: "cuts_at fit_lines wave_2d line_2d (length data_2d) j = Inr v"
    by force
  have "cut_hb s ! j = fst v" "cut_o3b s ! j = fst (snd v)" "cut_o3r s ! j = snd (snd v)"
    unfolding s fold_write_cuts using assms(2,3) v
    by (simp_all add: fold_update_nth zeros_sq_def)
  then have "v = (cut_hb s ! j, cut_o3b s ! j, cut_o3r s ! j)"
    by (cases v) auto
  then show ?thesis
    using v by (auto simp: cuts_at_def split: if_splits)
qed

lemma cont_loop_stops:
  assumes "k < length data_2d"
    and "flux_cont2d_in [0 ..< k] fit bounds wave_2d data_2d = (out, None)"
    and "cont_row fit bounds wave_2d data_2d k = Inl e"
  shows "flux_cont2d fit bounds wave_2d data_2d = (out, Some e)"
  using assms(2,3)
  by (simp add: flux_cont2d_def flux_cont2d_in_def upt_split [OF assms(1)] row_loop_append
      cont_body_def)

lemma line_loop_stops:
  assumes "k < length data_2d"
    and "cut_maps_in [0 ..< k] fit_lines wave_2d line_2d data_2d = (s, None)"
    and "line_body fit_lines wave_2d line_2d (length data_2d) k s = (s', Some e)"
  shows "cut_maps fit_lines wave_2d line_2d data_2d = (s', Some e)"
  using assms(2,3)
  by (simp add: cut_maps_def cut_maps_in_def upt_split [OF assms(1)] row_loop_append)

text \<open>
  Claim C3, amended. Neither loop catches an exception. In the continuum loop, when the
  first \<open>k\<close> rows have been processed and the fit (or the masking before it) raises on
  row \<open>k\<close>, the loop ends there with that exception: the rows before \<open>k\<close> hold their
  continuum, and row \<open>k\<close> and every later row keep their initial value, the pixel times
  0, which is 0 for a finite pixel and \<^verbatim>\<open>nan\<close> for an infinite one or \<^verbatim>\<open>nan\<close>. In
  the emission-line loop, when the first \<open>m\<close> rows have been processed and the iteration
  of row \<open>m\<close> raises, the loop ends there with that exception: the rows before \<open>m\<close>
  hold their cuts and every later row of the three maps is still zero; when it is the fit
  (or the cut before it) that raises, row \<open>m\<close> is still zero too.
\<close>

theorem row_failure_stops_loop:
  "(k < length data_2d
      \<and> flux_cont2d_in [0 ..< k] fit bounds wave_2d data_2d = (out, None)
      \<and> cont_row fit bounds wave_2d data_2d k = Inl e
    \<longrightarrow> flux_cont2d fit bounds wave_2d data_2d = (out, Some e)
        \<and> (\<forall>j<k. cont_of_row fit bounds (wave_2d ! j) (data_2d ! j) = Inr (out ! j))
        \<and> (\<forall>j. k \<le> j \<and> j < length data_2d \<longrightarrow>
              out ! j = map (\<lambda>x. case x of Fin a \<Rightarrow> Fin 0 | _ \<Rightarrow> NaN) (data_2d ! j)))
   \<and> (m < length data
      \<and> cut_maps_in [0 ..< m] fit_lines wave line_2d data = (s, None)
      \<and> line_body fit_lines wave line_2d (length data) m s = (s', Some e')
    \<longrightarrow> cut_maps fit_lines wave line_2d data = (s', Some e')
        \<and> (\<forall>j<m. cuts_of_row fit_lines (length data) (wave ! j) (line_2d ! j)
              = Inr (cut_hb s' ! j, cut_o3b s' ! j, cut_o3r s' ! j))
        \<and> (\<forall>j. m < j \<and> j < length data \<longrightarrow>
              cut_hb s' ! j = replicate (length data) (Fin 0)
              \<and> cut_o3b s' ! j = replicate (length data) (Fin 0)
              \<and> cut_o3r s' ! j = replicate (length data) (Fin 0))
        \<and> (\<forall>x. line_row fit_lines wave line_2d m = Inl x \<longrightarrow>
              e' = x \<and> s' = s
              \<and> cut_hb s ! m = replicate (length data) (Fin 0)
              \<and> cut_o3b s ! m = replicate (length data) (Fin 0)
              \<and> cut_o3r s ! m = replicate (length data) (Fin 0)))"
proof (intro conjI impI)
  assume a: "k < length data_2d
      \<and> flux_cont2d_in [0 ..< k] fit bounds wave_2d data_2d = (out, None)
      \<and> cont_row fit bounds wave_2d data_2d k = Inl e"
  show "flux_cont2d fit bounds wave_2d data_2d = (out, Some e)"
    using a cont_loop_stops by blast
  show "\<forall>j<k. cont_of_row fit bounds (wave_2d ! j) (data_2d ! j) = Inr (out ! j)"
    using a cont_rows_done by blast
  show "\<forall>j. k \<le> j \<and> j < length data_2d \<longrightarrow>
      out ! j = map (\<lambda>x. case x of Fin a \<Rightarrow> Fin 0 | _ \<Rightarrow> NaN) (data_2d ! j)"
    using a cont_rows_untouched by blast
next
  assume b: "m < length data
      \<and> cut_maps_in [0 ..< m] fit_lines wave line_2d data = (s, None)
      \<and> line_body fit_lines wave line_2d (length data) m s = (s', Some e')"
  show "cut_maps fit_lines wave line_2d data = (s', Some e')"
    using b line_loop_stops by blast
  have fr: "cut_hb s' ! j = cut_hb s ! j \<and> cut_o3b s' ! j = cut_o3b s ! j
        \<and> cut_o3r s' ! j = cut_o3r s ! j" if "j \<noteq> m" for j
    using b that line_body_frame by blast
  have z: "cut_hb s ! j = replicate (length data) (Fin 0)
     \<and> cut_o3b s ! j = replicate (length data) (Fin 0)
     \<and> cut_o3r s ! j = replicate (length data) (Fin 0)"
    if "m \<le> j" "j < length data" for j
    using b that cut_rows_untouched by blast
  show "\<forall>j<m. cuts_of_row fit_lines (length data) (wave ! j) (line_2d ! j)
              = Inr (cut_hb s' ! j, cut_o3b s' ! j, cut_o3r s' ! j)"
  proof (intro allI impI)
    fix j
    assume j: "j < m"
    then have "cuts_of_row fit_lines (length data) (wave ! j) (line_2d ! j)
        = Inr (cut_hb s ! j, cut_o3b s ! j, cut_o3r s ! j)"
      using b cut_rows_done by blast
    then show "cuts_of_row fit_lines (length data) (wave ! j) (line_2d ! j)
        = Inr (cut_hb s' ! j, cut_o3b s' ! j, cut_o3r s' ! j)"
      using fr [of j] j by simp
  qed
  show "\<forall>j. m < j \<and> j < length data \<longrightarrow>
              cut_hb s' ! j = replicate (length data) (Fin 0)
              \<and> cut_o3b s' ! j = replicate (length data) (Fin 0)
              \<and> cut_o3r s' ! j = replicate (length data) (Fin 0)"
  proof (intro allI impI)
    fix j
    assume j: "m < j \<and> j < length data"
    then show "cut_hb s' ! j = replicate (length data) (Fin 0)
              \<and> cut_o3b s' ! j = replicate (length data) (Fin 0)
              \<and> cut_o3r s' ! j = replicate (length data) (Fin 0)"
      using z [of j] fr [of j] by simp
  qed
  show "\<forall>x. line_row fit_lines wave line_2d m = Inl x \<longrightarrow>
              e' = x \<and> s' = s
              \<and> cut_hb s ! m = replicate (length data) (Fin 0)
              \<and> cut_o3b s ! m = replicate (length data) (Fin 0)
              \<and> cut_o3r s ! m = replicate (length data) (Fin 0)"
  proof (intro allI impI)
    fix x
    assume "line_row fit_lines wave line_2d m = Inl x"
    then have "line_body fit_lines wave line_2d (length data) m s = (s, Some x)"
      by (simp add: line_body_def)
    with b have "e' = x \<and> s' = s" by simp
    then show "e' = x \<and> s' = s
              \<and> cut_hb s ! m = replicate (length data) (Fin 0)
              \<and> cut_o3b s ! m = replicate (length data) (Fin 0)
              \<and> cut_o3r s ! m = replicate (length data) (Fin 0)"
      using z [of m] b by simp
  qed
qed

theorem row_failure_stops_loop_witness:
  "(1::nat) < length [[Fin 1, Fin 2, Fin 3, Fin 4, Fin 5], [Fin 6, NaN, PInf, Fin 9, Fin 10]]
   \<and> flux_cont2d_in [0 ..< 1]
        (\<lambda>deg w f. if w = [] then Inl ValueError else Inr (\<lambda>x. foldr fadd f (Fin 0)))
        bounds_150 [[1.40, 1.45, 1.50, 1.55, 1.60], [1.0, 1.1, 1.2, 1.3, 1.35]]
        [[Fin 1, Fin 2, Fin 3, Fin 4, Fin 5], [Fin 6, NaN, PInf, Fin 9, Fin 10]]
      = ([[Fin 3, Fin 3, Fin 3, Fin 3, Fin 3], [Fin 0, NaN, NaN, Fin 0, Fin 0]], None)
   \<and> cont_row (\<lambda>deg w f. if w = [] then Inl ValueError else Inr (\<lambda>x. foldr fadd f (Fin 0)))
        bounds_150 [[1.40, 1.45, 1.50, 1.55, 1.60], [1.0, 1.1, 1.2, 1.3, 1.35]]
        [[Fin 1, Fin 2, Fin 3, Fin 4, Fin 5], [Fin 6, NaN, PInf, Fin 9, Fin 10]] 1
      = Inl ValueError
   \<and> flux_cont2d (\<lambda>deg w f. if w = [] then Inl ValueError else Inr (\<lambda>x. foldr fadd f (Fin 0)))
        bounds_150 [[1.40, 1.45, 1.50, 1.55, 1.60], [1.0, 1.1, 1.2, 1.3, 1.35]]
        [[Fin 1, Fin 2, Fin 3, Fin 4, Fin 5], [Fin 6, NaN, PInf, Fin 9, Fin 10]]
      = ([[Fin 3, Fin 3, Fin 3, Fin 3, Fin 3], [Fin 0, NaN, NaN, Fin 0, Fin 0]],
         Some ValueError)
   \<and> cut_maps_in [0 ..< 1]
        (\<lambda>w f. if w = [] then Inl ValueError
           else Inr (\<lambda>x. Fin 1, \<lambda>x. Fin 2, \<lambda>x. foldr fadd f (Fin 0)))
        [[1.40, 1.45, 1.50, 1.55, 1.60], [1.0, 1.1, 1.2, 1.3, 1.35]]
        [[Fin 1, Fin 2, Fin 3, Fin 4, Fin 5], [Fin 6, Fin 7, Fin 8, Fin 9, Fin 10]]
        [[Fin 1, Fin 2, Fin 3, Fin 4, Fin 5], [Fin 6, Fin 7, Fin 8, Fin 9, Fin 10]]
      = (\<lparr>cut_hb = [[Fin 1, Fin 1], [Fin 0, Fin 0]], cut_o3b = [[Fin 2, Fin 2], [Fin 0, Fin 0]],
           cut_o3r = [[Fin 14, Fin 14], [Fin 0, Fin 0]]\<rparr>, None)
   \<and> line_row
        (\<lambda>w f. if w = [] then Inl ValueError
           else Inr (\<lambda>x. Fin 1, \<lambda>x. Fin 2, \<lambda>x. foldr fadd f (Fin 0)))
        [[1.40, 1.45, 1.50, 1.55, 1.60], [1.0, 1.1, 1.2, 1.3, 1.35]]
        [[Fin 1, Fin 2, Fin 3, Fin 4, Fin 5], [Fin 6, Fin 7, Fin 8, Fin 9, Fin 10]] 1
      = Inl ValueError
   \<and> cut_maps
        (\<lambda>w f. if w = [] then Inl ValueError
           else Inr (\<lambda>x. Fin 1, \<lambda>x. Fin 2, \<lambda>x. foldr fadd f (Fin 0)))
        [[1.40, 1.45, 1.50, 1.55, 1.60], [1.0, 1.1, 1.2, 1.3, 1.35]]
        [[Fin 1, Fin 2, Fin 3, Fin 4, Fin 5], [Fin 6, Fin 7, Fin 8, Fin 9, Fin 10]]
        [[Fin 1, Fin 2, Fin 3, Fin 4, Fin 5], [Fin 6, Fin 7, Fin 8, Fin 9, Fin 10]]
      = (\<lparr>cut_hb = [[Fin 1, Fin 1], [Fin 0, Fin 0]], cut_o3b = [[Fin 2, Fin 2], [Fin 0, Fin 0]],
           cut_o3r = [[Fin 14, Fin 14], [Fin 0, Fin 0]]\<rparr>, Some ValueError)"
proof -
  let ?fit = "\<lambda>(deg::nat) (w::real list) (f::fnum list).
      if w = [] then Inl ValueError else Inr (\<lambda>x::real. foldr fadd f (Fin 0))"
  let ?fit_lines = "\<lambda>(w::real list) (f::fnum list).
      if w = [] then Inl ValueError
      else Inr (\<lambda>x::real. Fin 1, \<lambda>x::real. Fin 2, \<lambda>x::real. foldr fadd f (Fin 0))"
  let ?W = "[[1.40, 1.45, 1.50, 1.55, 1.60], [1.0, 1.1, 1.2, 1.3, 1.35]] :: real list list"
  let ?D = "[[Fin 1, Fin 2, Fin 3, Fin 4, Fin 5], [Fin 6, NaN, PInf, Fin 9, Fin 10]]"
  let ?L = "[[Fin 1, Fin 2, Fin 3, Fin 4, Fin 5], [Fin 6, Fin 7, Fin 8, Fin 9, Fin 10]]"
  let ?out = "[[Fin 3, Fin 3, Fin 3, Fin 3, Fin 3], [Fin 0, NaN, NaN, Fin 0, Fin 0]]"
  let ?s = "\<lparr>cut_hb = [[Fin 1, Fin 1], [Fin 0, Fin 0]], cut_o3b = [[Fin 2, Fin 2], [Fin 0, Fin 0]],
           cut_o3r = [[Fin 14, Fin 14], [Fin 0, Fin 0]]\<rparr>"
  have h1: "1 < length ?D" by simp
  have h2: "flux_cont2d_in [0 ..< 1] ?fit bounds_150 ?W ?D = (?out, None)"
    by (simp add: flux_cont2d_in_def zeros_like_def cont_body_def
      cont_row_def get_def cont_of_row_def continuum_estimator_def mask_line_def in_bounds_def
      bounds_150_def bool_index_def assign_row_def broadcast_row_def)
  have h3: "cont_row ?fit bounds_150 ?W ?D 1 = Inl ValueError"
    by (simp add: cont_row_def get_def cont_of_row_def continuum_estimator_def mask_line_def
      in_bounds_def bounds_150_def bool_index_def)
  have g1: "1 < length ?L" by simp
  have g2: "cut_maps_in [0 ..< 1] ?fit_lines ?W ?L ?L = (?s, None)"
    by (simp add: cut_maps_in_def zeros_sq_def line_body_def line_row_def
      line_of_row_def get_def bool_index_def cut_row_def lamcen_hb_def lamcen_o3b_def
      lamcen_o3r_def zin_def argmin_def int_of_float_def py_slice_def slice_bound_def
      assign_row_def broadcast_row_def)
  have g3: "line_row ?fit_lines ?W ?L 1 = Inl ValueError"
    by (simp add: line_row_def line_of_row_def get_def bool_index_def)
  have g4: "line_body ?fit_lines ?W ?L (length ?L) 1 ?s = (?s, Some ValueError)"
    using g3 by (simp add: line_body_def)
  from row_failure_stops_loop [of 1 ?D ?fit bounds_150 ?W ?out ValueError 1 ?L ?fit_lines ?W ?L
      ?s ?s ValueError]
  have "flux_cont2d ?fit bounds_150 ?W ?D = (?out, Some ValueError)"
    and "cut_maps ?fit_lines ?W ?L ?L = (?s, Some ValueError)"
    using h1 h2 h3 g1 g2 g4 by blast+
  then show ?thesis
    using h1 h2 h3 g2 g3 by blast
qed

text \<open>
  The claim as stated fails: with a fit that raises on an empty sample set, row 0 below has
  no continuum sample, the loop ends with the exception, and row 1, whose fit succeeds, is
  never processed.
\<close>

theorem row_failure_not_caught_counterexample:
  "cont_row (\<lambda>deg w f. if w = [] then Inl ValueError else Inr (\<lambda>x. foldr fadd f (Fin 0)))
        bounds_150 [[1.0, 1.1, 1.2, 1.3, 1.35], [1.40, 1.45, 1.50, 1.55, 1.60]]
        [[Fin 1, Fin 2, Fin 3, Fin 4, Fin 5], [Fin 6, Fin 7, Fin 8, Fin 9, Fin 10]] 0
      = Inl ValueError
   \<and> cont_row (\<lambda>deg w f. if w = [] then Inl ValueError else Inr (\<lambda>x. foldr fadd f (Fin 0)))
        bounds_150 [[1.0, 1.1, 1.2, 1.3, 1.35], [1.40, 1.45, 1.50, 1.55, 1.60]]
        [[Fin 1, Fin 2, Fin 3, Fin 4, Fin 5], [Fin 6, Fin 7, Fin 8, Fin 9, Fin 10]] 1
      = Inr [Fin 13, Fin 13, Fin 13, Fin 13, Fin 13]
   \<and> flux_cont2d (\<lambda>deg w f. if w = [] then Inl ValueError else Inr (\<lambda>x. foldr fadd f (Fin 0)))
        bounds_150 [[1.0, 1.1, 1.2, 1.3, 1.35], [1.40, 1.45, 1.50, 1.55, 1.60]]
        [[Fin 1, Fin 2, Fin 3, Fin 4, Fin 5], [Fin 6, Fin 7, Fin 8, Fin 9, Fin 10]]
      = ([[Fin 0, Fin 0, Fin 0, Fin 0, Fin 0], [Fin 0, Fin 0, Fin 0, Fin 0, Fin 0]],
         Some ValueError)"
  by (simp add: flux_cont2d_def flux_cont2d_in_def upt2 zeros_like_def cont_body_def
      cont_row_def get_def cont_of_row_def continuum_estimator_def mask_line_def in_bounds_def
      bounds_150_def bool_index_def assign_row_def broadcast_row_def)

section \<open>read\_hdf5: the claims\<close>










lemma py_int_space:
  "py_int [CHR 0xA0, CHR ''6'', CHR 0x85] = Inr 6"
  "py_int '' +1_0 '' = Inr 10"
  "py_int ''-007'' = Inr (- 7)"
  "py_int ''1__0'' = Inl ValueError"
  by (simp_all add: py_int_def strip_def is_space_def digits_value_def is_digit_def)


section \<open>Template Normalizer: the claims\<close>

lemma Max_scaled:
  fixes xs :: "real list"
  assumes "xs \<noteq> []" "0 < Max (set xs)"
  shows "Max (set (map (\<lambda>x. x / Max (set xs)) xs)) = 1"
proof -
  let ?m = "Max (set xs)"
  have "mono (\<lambda>x. x / ?m)"
    using assms(2) by (auto simp: mono_def divide_right_mono)
  then have "(\<lambda>x. x / ?m) ?m = Max ((\<lambda>x. x / ?m) ` set xs)"
    using assms(1) by (intro mono_Max_commute) auto
  then show ?thesis
    using assms(2) by simp
qed

text \<open>
  Claim C4, amended. When the Template Normalizer returns, its wavelengths are the
  template wavelengths inside the window (3600 to 13000 Angstrom after the shift, bounds
  excluded), each divided by \<open>1 + z_input\<close>; the flux of those samples is divided by its
  maximum, the library's continuum fit (with the exclusion regions) is subtracted, and the
  result is divided by its maximum value, not by its maximum absolute value. When that
  maximum is positive the largest value of the output is 1.
\<close>

theorem template_normalizer_steps:
  assumes "template_normalizer fit_excl z_input content_iix = Inr (wave, pflux)"
  shows "wave = map (\<lambda>w. w / (1 + z_input))
            (filter (\<lambda>w. 3600 < w / (1 + z_input) * 10000 \<and> w / (1 + z_input) * 10000 < 13000)
               (wavelengths content_iix))
     \<and> (\<exists>flux0 continuum_model.
          flux0 = map snd
            (filter (\<lambda>(w, f). 3600 < w / (1 + z_input) * 10000 \<and> w / (1 + z_input) * 10000 < 13000)
               (zip (wavelengths content_iix) (fluxes content_iix)))
          \<and> fit_excl 3 regions wave (map (\<lambda>f. f / Max (set flux0)) flux0) = Inr continuum_model
          \<and> pflux = map (\<lambda>s. s / Max (set (map2 (\<lambda>f w. f / Max (set flux0) - continuum_model w) flux0 wave)))
                (map2 (\<lambda>f w. f / Max (set flux0) - continuum_model w) flux0 wave)
          \<and> (0 < Max (set (map2 (\<lambda>f w. f / Max (set flux0) - continuum_model w) flux0 wave)) \<longrightarrow>
               Max (set pflux) = 1))"
proof -
  let ?g = "\<lambda>w. w / (1 + z_input) * 10000"
  let ?P = "\<lambda>w :: real. 3600 < w \<and> w < 13000"
  let ?wave_all = "map ?g (wavelengths content_iix)"
  let ?con = "map ?P ?wave_all"
  from assms have z: "1 + z_input \<noteq> 0"
    by (auto simp: template_normalizer_def split: if_splits)
  from assms obtain flux0 wave0 flux cm where
    f0: "bool_index (fluxes content_iix) ?con = Inr flux0"
    and w0: "bool_index ?wave_all ?con = Inr wave0"
    and fl: "divide_by_max flux0 = Inr flux"
    and wv: "wave = map (\<lambda>w. w * 0.0001) wave0"
    and cm: "fit_excl 3 regions wave flux = Inr cm"
    and pf: "divide_by_max (map2 (\<lambda>f w. f - cm w) flux wave) = Inr pflux"
    by (auto simp: template_normalizer_def Let_def split: if_splits sum.splits)
  have len: "length (fluxes content_iix) = length (wavelengths content_iix)"
    using f0 by (auto simp: bool_index_def split: if_splits)
  have w0': "wave0 = filter ?P ?wave_all"
    using w0 unfolding bool_index_self by simp
  have a: "wave = map (\<lambda>w. w / (1 + z_input))
            (filter (\<lambda>w. 3600 < w / (1 + z_input) * 10000 \<and> w / (1 + z_input) * 10000 < 13000)
               (wavelengths content_iix))"
  proof -
    have one: "(10000::real) * 0.0001 = 1"
      by simp
    have e: "w / (1 + z_input) * 10000 * 0.0001 = w / (1 + z_input)" for w
      by (simp only: mult.assoc one mult_1_right)
    show ?thesis
      unfolding wv w0' by (simp only: filter_map map_map comp_def e)
  qed
  have f0': "flux0 = map snd
            (filter (\<lambda>(w, f). 3600 < w / (1 + z_input) * 10000 \<and> w / (1 + z_input) * 10000 < 13000)
               (zip (wavelengths content_iix) (fluxes content_iix)))"
  proof -
    have "bool_index (fluxes content_iix) (map (\<lambda>w. ?P (?g w)) (wavelengths content_iix))
        = Inr (map snd (filter (\<lambda>(w, f). ?P (?g w))
               (zip (wavelengths content_iix) (fluxes content_iix))))"
      by (rule bool_index_other [OF len])
    then show ?thesis
      using f0 by (simp add: comp_def)
  qed
  have fl': "flux = map (\<lambda>f. f / Max (set flux0)) flux0"
    using fl by (auto simp: divide_by_max_def split: if_splits)
  have s: "map2 (\<lambda>f w. f - cm w) flux wave
      = map2 (\<lambda>f w. f / Max (set flux0) - cm w) flux0 wave"
    unfolding fl' by (simp add: zip_map1 split_def)
  let ?s = "map2 (\<lambda>f w. f / Max (set flux0) - cm w) flux0 wave"
  have pf': "pflux = map (\<lambda>x. x / Max (set ?s)) ?s" and ne: "?s \<noteq> []"
    using pf unfolding s by (auto simp: divide_by_max_def split: if_splits)
  have pk: "0 < Max (set ?s) \<longrightarrow> Max (set pflux) = 1"
    unfolding pf' using Max_scaled [OF ne] by blast
  show ?thesis
    using a f0' cm [unfolded fl'] pf' pk by blast
qed

lemma template_ex:
  "template_normalizer (\<lambda>deg excl w f. Inr (\<lambda>x. 1 / 4)) 2.1
      \<lparr>wavelengths = [1.55, 1.86, 2.17, 3.1, 5], fluxes = [2, 4, 1, 1, 100]\<rparr>
    = Inr ([0.5, 0.6, 0.7, 1], [1 / 3, 1, 0, 0])"
  by (simp add: template_normalizer_def bool_index_def divide_by_max_def Let_def)

theorem template_normalizer_steps_witness:
  "template_normalizer (\<lambda>deg excl w f. Inr (\<lambda>x. 1 / 4)) 2.1
      \<lparr>wavelengths = [1.55, 1.86, 2.17, 3.1, 5], fluxes = [2, 4, 1, 1, 100]\<rparr>
    = Inr ([0.5, 0.6, 0.7, 1], [1 / 3, 1, 0, 0])
   \<and> [0.5, 0.6, 0.7, 1] = map (\<lambda>w. w / (1 + 2.1))
            (filter (\<lambda>w. 3600 < w / (1 + 2.1) * 10000 \<and> w / (1 + 2.1) * 10000 < 13000)
               (wavelengths \<lparr>wavelengths = [1.55, 1.86, 2.17, 3.1, 5 :: real],
                  fluxes = [2, 4, 1, 1, 100 :: real]\<rparr>))"
  using template_ex template_normalizer_steps [OF template_ex] by blast

text \<open>
  The claim as stated fails on a template with an absorption feature deeper than its
  strongest emission: the seven samples below are all inside the window, the two line
  samples lie in an exclusion region, the continuum samples are zero (so the fitted
  continuum is zero), the maximum of the residual is 1 and the output keeps the value
  \<open>-3\<close>: its maximum absolute value is 3, not 1.
\<close>

theorem template_peak_counterexample:
  "template_normalizer (\<lambda>deg excl w f. Inr (\<lambda>x. 0)) 2.1
      \<lparr>wavelengths = [1.55, 1.581, 1.86, 2.17, 2.48, 2.79, 3.1],
        fluxes = [1, - 3, 0, 0, 0, 0, 0]\<rparr>
    = Inr ([0.5, 0.51, 0.6, 0.7, 0.8, 0.9, 1], [1, - 3, 0, 0, 0, 0, 0])
   \<and> Max (set (map abs [1, - 3, 0, 0, 0, 0, 0 :: real])) = 3"
  by (simp add: template_normalizer_def bool_index_def divide_by_max_def Let_def)

section \<open>fluxes2mags: the claims\<close>

lemma fluxes2mags1_cases:
  "fluxes2mags1 to_ABmag flux fluxerr =
     (if unobs fluxerr then (Fin (- 99), Fin 0)
      else if nondet flux then (Fin 99, to_ABmag fluxerr)
      else (to_ABmag flux, fscale 2.5 (flog10 (fadd (Fin 1) (fdiv fluxerr flux)))))"
  by (simp add: fluxes2mags1_def Let_def)

text \<open>
  Claim C10. For arrays of equal length and every position \<open>i\<close>: an unobserved element
  (\<open>fluxerr \<le> 0\<close> or \<open>fluxerr = inf\<close>) gets magnitude \<open>-99\<close> and error 0, also when its
  flux is negative; a non-detection (\<open>flux < 0\<close>) that is not unobserved gets magnitude
  99 and the error \<open>to_ABmag fluxerr\<close>; every other element gets the magnitude
  \<open>to_ABmag flux\<close> and the error \<open>2.5 * log10 (1 + fluxerr / flux)\<close>.
\<close>

theorem fluxes2mags_rules:
  assumes "length flux = length fluxerr" and "i < length flux"
  shows "\<exists>mag magerr. fluxes2mags to_ABmag flux fluxerr = Inr (mag, magerr)
     \<and> length mag = length flux \<and> length magerr = length flux
     \<and> (unobs (fluxerr ! i) \<longrightarrow> mag ! i = Fin (- 99) \<and> magerr ! i = Fin 0)
     \<and> (nondet (flux ! i) \<and> \<not> unobs (fluxerr ! i) \<longrightarrow>
          mag ! i = Fin 99 \<and> magerr ! i = to_ABmag (fluxerr ! i))
     \<and> (\<not> nondet (flux ! i) \<and> \<not> unobs (fluxerr ! i) \<longrightarrow>
          mag ! i = to_ABmag (flux ! i)
          \<and> magerr ! i = fscale 2.5 (flog10 (fadd (Fin 1) (fdiv (fluxerr ! i) (flux ! i)))))"
  using assms by (simp add: fluxes2mags_def fluxes2mags1_cases)

theorem fluxes2mags_rules_witness:
  "length [Fin (- 1), Fin (- 2), Fin 5, Fin 10] = length [Fin 1, Fin 0, PInf, Fin 10]
   \<and> (2::nat) < length [Fin (- 1), Fin (- 2), Fin 5, Fin 10]
   \<and> unobs ([Fin 1, Fin 0, PInf, Fin 10] ! 2)
   \<and> fluxes2mags (\<lambda>x. fscale (- 2.5) (flog10 (fdiv x (Fin 3631))))
        [Fin (- 1), Fin (- 2), Fin 5, Fin 10] [Fin 1, Fin 0, PInf, Fin 10]
      = Inr ([Fin 99, Fin (- 99), Fin (- 99), Fin (- 2.5 * log 10 (10 / 3631))],
             [Fin (- 2.5 * log 10 (1 / 3631)), Fin 0, Fin 0, Fin (2.5 * log 10 2)])"
proof -
  let ?flux = "[Fin (- 1), Fin (- 2), Fin 5, Fin 10]"
  let ?err = "[Fin 1, Fin 0, PInf, Fin 10]"
  let ?to = "\<lambda>x. fscale (- 2.5) (flog10 (fdiv x (Fin 3631)))"
  have h1: "length ?flux = length ?err" by simp
  have h2: "2 < length ?flux" by simp
  have u: "unobs (?err ! 2)" by (simp add: unobs_def)
  have v: "fluxes2mags ?to ?flux ?err
      = Inr ([Fin 99, Fin (- 99), Fin (- 99), Fin (- 2.5 * log 10 (10 / 3631))],
             [Fin (- 2.5 * log 10 (1 / 3631)), Fin 0, Fin 0, Fin (2.5 * log 10 2)])"
    by (simp add: fluxes2mags_def fluxes2mags1_def nondet_def unobs_def fle_def)
  from fluxes2mags_rules [OF h1 h2, of ?to] show ?thesis
    using h1 h2 u v by blast
qed

end
